theory Spec2Isabelle
  imports Complex_Main
begin

section \<open>Strings\<close>

text \<open>
  A JavaScript string is modelled as the list of the bytes of its UTF-8 encoding (a lone
  surrogate as the three bytes that the same scheme gives it). A byte below 128 is an
  ASCII character and never part of the encoding of another character, so prefixes,
  substrings and splitting at the line feed are the same on the bytes as on the
  string, for the ASCII patterns of the source.
\<close>

definition startsWith :: "string \<Rightarrow> string \<Rightarrow> bool" where
  "startsWith s p = (take (length p) s = p)"

text \<open>\<^verbatim>\<open>s.includes(p)\<close>: \<open>p\<close> occurs in \<open>s\<close> as a contiguous substring.\<close>

fun str_includes :: "string \<Rightarrow> string \<Rightarrow> bool" where
  "str_includes [] p = (p = [])"
| "str_includes (c # cs) p = (startsWith (c # cs) p \<or> str_includes cs p)"

text \<open>
  Lowering the ASCII letters. This is what the \<^verbatim>\<open>i\<close> flag of a pattern of ASCII
  characters compares by, and what \<^verbatim>\<open>toLowerCase\<close> does on a string of ASCII
  characters.
\<close>

definition lower_char :: "char \<Rightarrow> char" where
  "lower_char c =
     (case map_of (zip ''ABCDEFGHIJKLMNOPQRSTUVWXYZ'' ''abcdefghijklmnopqrstuvwxyz'') c of
        Some d \<Rightarrow> d
      | None \<Rightarrow> c)"

definition ascii_lower :: "string \<Rightarrow> string" where
  "ascii_lower s = map lower_char s"

text \<open>\<^verbatim>\<open>s.replace(/_/g, '-')\<close>\<close>

definition underscores_to_hyphens :: "string \<Rightarrow> string" where
  "underscores_to_hyphens s = map (\<lambda>c. if c = CHR ''_'' then CHR ''-'' else c) s"

text \<open>
  The white space and line terminators that \<^verbatim>\<open>trim\<close> and \<^verbatim>\<open>parseInt\<close> strip, each as
  its UTF-8 bytes: U+0009 to U+000D, U+0020, U+00A0, U+1680, U+2000 to U+200A,
  U+2028, U+2029, U+202F, U+205F, U+3000 and U+FEFF.
\<close>

definition white_space :: "string list" where
  "white_space =
     [[CHR 0x09], [CHR 0x0A], [CHR 0x0B], [CHR 0x0C], [CHR 0x0D], [CHR 0x20],
      [CHR 0xC2, CHR 0xA0],
      [CHR 0xE1, CHR 0x9A, CHR 0x80],
      [CHR 0xE2, CHR 0x80, CHR 0x80], [CHR 0xE2, CHR 0x80, CHR 0x81],
      [CHR 0xE2, CHR 0x80, CHR 0x82], [CHR 0xE2, CHR 0x80, CHR 0x83],
      [CHR 0xE2, CHR 0x80, CHR 0x84], [CHR 0xE2, CHR 0x80, CHR 0x85],
      [CHR 0xE2, CHR 0x80, CHR 0x86], [CHR 0xE2, CHR 0x80, CHR 0x87],
      [CHR 0xE2, CHR 0x80, CHR 0x88], [CHR 0xE2, CHR 0x80, CHR 0x89],
      [CHR 0xE2, CHR 0x80, CHR 0x8A],
      [CHR 0xE2, CHR 0x80, CHR 0xA8], [CHR 0xE2, CHR 0x80, CHR 0xA9],
      [CHR 0xE2, CHR 0x80, CHR 0xAF],
      [CHR 0xE2, CHR 0x81, CHR 0x9F],
      [CHR 0xE3, CHR 0x80, CHR 0x80],
      [CHR 0xEF, CHR 0xBB, CHR 0xBF]]"

text \<open>\<open>strip_start ws s\<close> removes from the start of \<open>s\<close> every leading occurrence of one
  of the byte strings \<open>ws\<close>.\<close>

fun strip_start :: "string list \<Rightarrow> string \<Rightarrow> string" where
  "strip_start ws [] = []"
| "strip_start ws (c # cs) =
     (case find (\<lambda>w. w \<noteq> [] \<and> startsWith (c # cs) w) ws of
        Some w \<Rightarrow> strip_start ws (drop (length w - 1) cs)
      | None \<Rightarrow> c # cs)"

definition trimStart :: "string \<Rightarrow> string" where
  "trimStart s = strip_start white_space s"

definition trim :: "string \<Rightarrow> string" where
  "trim s = rev (strip_start (map rev white_space) (rev (trimStart s)))"

section \<open>Numbers\<close>

text \<open>
  The numbers that a token limit can be: a finite double, as the rational it denotes,
  or an infinity. (\<^verbatim>\<open>NaN\<close> never enters the table: \<^verbatim>\<open>loadFromProcessEnv\<close> drops it and
  JSON cannot write it.)
\<close>

datatype number = Number rat | PosInfinity | NegInfinity

fun number_truthy :: "number \<Rightarrow> bool" where
  "number_truthy (Number r) = (r \<noteq> 0)"
| "number_truthy PosInfinity = True"
| "number_truthy NegInfinity = True"

fun negate :: "number \<Rightarrow> number" where
  "negate (Number r) = Number (- r)"
| "negate PosInfinity = NegInfinity"
| "negate NegInfinity = PosInfinity"

text \<open>The number of binary digits of a positive integer.\<close>

function bitlen :: "int \<Rightarrow> nat" where
  "bitlen n = (if n \<le> 0 then 0 else Suc (bitlen (n div 2)))"
  by pat_completeness auto
termination
  by (relation "measure nat") auto

text \<open>
  The double nearest to a non-negative integer: exact below \<open>2 ^ 53\<close>; above, the 53 leading
  binary digits are kept and the rest is rounded to nearest, a tie to the even
  neighbour; a result of \<open>2 ^ 1024\<close> or more is \<^verbatim>\<open>Infinity\<close>.
\<close>

definition int_to_double :: "int \<Rightarrow> number" where
  "int_to_double n =
     (if n < 2 ^ 53 then Number (of_int n)
      else (let e = bitlen n - 53;
                q = n div 2 ^ e;
                r = n mod 2 ^ e;
                q' = (if 2 ^ e < 2 * r \<or> (2 * r = 2 ^ e \<and> odd q) then q + 1 else q)
            in if 2 ^ 1024 \<le> q' * 2 ^ e then PosInfinity else Number (of_int (q' * 2 ^ e))))"

definition digit_value :: "char \<Rightarrow> int option" where
  "digit_value c = map_of (zip ''0123456789'' [0, 1, 2, 3, 4, 5, 6, 7, 8, 9]) c"

text \<open>
  \<^verbatim>\<open>parseInt(value, 10)\<close>: leading white space is stripped, one sign is read, then the
  longest run of decimal digits; no digit at all is \<^verbatim>\<open>NaN\<close>, here \<open>None\<close>. The result is
  the double nearest to the integer that the digits write (as V8 computes it; the
  language lets an implementation read digits after the twentieth as \<open>0\<close>).
\<close>

definition parseInt :: "string \<Rightarrow> number option" where
  "parseInt s =
     (let s1 = trimStart s;
          neg = (s1 \<noteq> [] \<and> hd s1 = CHR ''-'');
          s2 = (if s1 \<noteq> [] \<and> (hd s1 = CHR ''-'' \<or> hd s1 = CHR ''+'') then tl s1 else s1);
          ds = takeWhile (\<lambda>c. digit_value c \<noteq> None) s2;
          n = foldl (\<lambda>a c. 10 * a + the (digit_value c)) 0 ds
      in if ds = [] then None
         else Some (if neg then negate (int_to_double n) else int_to_double n))"

section \<open>Regular expressions of the token-limit resolver\<close>

text \<open>
  The four patterns of \<^verbatim>\<open>tokenLimit\<close> use literals, sequence, alternation and the
  optional group, all under the \<^verbatim>\<open>i\<close> flag. \<open>rmatch r s\<close> lists the remainders of \<open>s\<close>
  after each way \<open>r\<close> can match a prefix of \<open>s\<close>; \<^verbatim>\<open>test\<close> succeeds when the pattern
  matches at some position.
\<close>

datatype regex = Lit string | Seq regex regex | Alt regex regex | Opt regex

fun rmatch :: "regex \<Rightarrow> string \<Rightarrow> string list" where
  "rmatch (Lit p) s =
     (if startsWith (ascii_lower s) (ascii_lower p) then [drop (length p) s] else [])"
| "rmatch (Seq a b) s = concat (map (rmatch b) (rmatch a s))"
| "rmatch (Alt a b) s = rmatch a s @ rmatch b s"
| "rmatch (Opt a) s = rmatch a s @ [s]"

fun regex_test :: "regex \<Rightarrow> string \<Rightarrow> bool" where
  "regex_test r [] = (rmatch r [] \<noteq> [])"
| "regex_test r (c # cs) = (rmatch r (c # cs) \<noteq> [] \<or> regex_test r cs)"

text \<open>\<^verbatim>\<open>/gpt-4(\.1|-turbo|-o)?/i\<close>\<close>

definition re_gpt4 :: regex where
  "re_gpt4 = Seq (Lit ''gpt-4'') (Opt (Alt (Lit ''.1'') (Alt (Lit ''-turbo'') (Lit ''-o''))))"

text \<open>\<^verbatim>\<open>/claude-(3|4)/i\<close>\<close>

definition re_claude :: regex where
  "re_claude = Seq (Lit ''claude-'') (Alt (Lit ''3'') (Lit ''4''))"

text \<open>\<^verbatim>\<open>/llama-3/i\<close>\<close>

definition re_llama3 :: regex where
  "re_llama3 = Lit ''llama-3''"

text \<open>\<^verbatim>\<open>/mini|lite/i\<close>\<close>

definition re_mini_lite :: regex where
  "re_mini_lite = Alt (Lit ''mini'') (Lit ''lite'')"

section \<open>ModelConfigManager: the layered token-limit table\<close>

text \<open>
  \<^verbatim>\<open>ModelTokenLimits\<close> is a plain object from model names to numbers: a map holds its
  own properties. Reading a name that is no own property reaches \<^verbatim>\<open>Object.prototype\<close>,
  whose members are these.
\<close>

type_synonym ModelTokenLimits = "string \<rightharpoonup> number"

definition object_prototype_names :: "string list" where
  "object_prototype_names =
     [''constructor'', ''__defineGetter__'', ''__defineSetter__'', ''hasOwnProperty'',
      ''__lookupGetter__'', ''__lookupSetter__'', ''isPrototypeOf'', ''propertyIsEnumerable'',
      ''toString'', ''valueOf'', ''__proto__'', ''toLocaleString'']"

definition DEFAULT_TOKEN_LIMITS :: ModelTokenLimits where
  "DEFAULT_TOKEN_LIMITS = map_of
     [(''gemini-1.5-pro'', Number 2097152),
      (''gemini-1.5-flash'', Number 1048576),
      (''gemini-2.5-pro-preview-05-06'', Number 1048576),
      (''gemini-2.5-pro-preview-06-05'', Number 1048576),
      (''gemini-2.5-pro'', Number 1048576),
      (''gemini-2.5-flash-preview-05-20'', Number 1048576),
      (''gemini-2.5-flash'', Number 1048576),
      (''gemini-2.5-flash-lite'', Number 1048576),
      (''gemini-2.0-flash'', Number 1048576),
      (''gemini-2.0-flash-preview-image-generation'', Number 32000),
      (''gpt-4'', Number 128000),
      (''gpt-4-turbo'', Number 128000),
      (''gpt-4-turbo-preview'', Number 128000),
      (''gpt-4.1'', Number 128000),
      (''gpt-3.5-turbo'', Number 16384),
      (''gpt-3.5-turbo-16k'', Number 16384),
      (''gpt-4.1-mini'', Number 16384),
      (''gpt-4-32k'', Number 32768),
      (''gpt-4o'', Number 128000),
      (''claude-3-opus'', Number 200000),
      (''claude-3-sonnet'', Number 200000),
      (''claude-3-haiku'', Number 200000),
      (''claude-3.5-sonnet'', Number 200000),
      (''claude-4-sonnet'', Number 200000),
      (''llama-3.1-8b'', Number 128000),
      (''llama-3.1-70b'', Number 128000),
      (''llama-3.1-405b'', Number 128000),
      (''llama-3.2-1b'', Number 128000),
      (''llama-3.2-3b'', Number 128000),
      (''llama-3.3-8b'', Number 128000),
      (''llama-3.3-70b'', Number 128000)]"

text \<open>
  \<^verbatim>\<open>loadFromJson\<close>: the \<^verbatim>\<open>tokenLimits\<close> object of \<^verbatim>\<open>models.json\<close> is spread over the
  table. \<open>None\<close> stands for a missing file, a file that does not parse and a file
  without \<^verbatim>\<open>tokenLimits\<close>: all three leave the table as it is.
\<close>

definition loadFromJson :: "ModelTokenLimits option \<Rightarrow> ModelTokenLimits \<Rightarrow> ModelTokenLimits" where
  "loadFromJson config tokenLimits =
     (case config of Some fileLimits \<Rightarrow> tokenLimits ++ fileLimits | None \<Rightarrow> tokenLimits)"

text \<open>
  \<^verbatim>\<open>loadFromProcessEnv\<close>, the loop over \<^verbatim>\<open>Object.entries(process.env)\<close>: the
  environment is the list of its entries, visited in order. \<^verbatim>\<open>String.prototype.toLowerCase\<close>
  lowers the letters of all of Unicode and belongs to the runtime: the loader takes it
  as the parameter \<open>toLowerCase\<close>. On a key of ASCII characters it is \<open>ascii_lower\<close>.
  The derived name holds no underscore, so the assignment always makes an own
  property.
\<close>

definition env_model_name :: "(string \<Rightarrow> string) \<Rightarrow> string \<Rightarrow> string" where
  "env_model_name toLowerCase key =
     underscores_to_hyphens (toLowerCase (drop (length ''MODEL_TOKEN_LIMIT_'') key))"

fun loadFromProcessEnv ::
  "(string \<Rightarrow> string) \<Rightarrow> (string \<times> string) list \<Rightarrow> ModelTokenLimits \<Rightarrow> ModelTokenLimits" where
  "loadFromProcessEnv toLowerCase [] tokenLimits = tokenLimits"
| "loadFromProcessEnv toLowerCase ((key, val) # env) tokenLimits =
     loadFromProcessEnv toLowerCase env
       (if startsWith key ''MODEL_TOKEN_LIMIT_'' \<and> val \<noteq> []
        then (case parseInt val of
                Some tokenLimit \<Rightarrow> tokenLimits(env_model_name toLowerCase key \<mapsto> tokenLimit)
              | None \<Rightarrow> tokenLimits)
        else tokenLimits)"

text \<open>\<^verbatim>\<open>initialize\<close>: defaults, then the file, then the process environment.\<close>

definition initialize ::
  "(string \<Rightarrow> string) \<Rightarrow> ModelTokenLimits option \<Rightarrow> (string \<times> string) list \<Rightarrow> ModelTokenLimits" where
  "initialize toLowerCase config env =
     loadFromProcessEnv toLowerCase env (loadFromJson config DEFAULT_TOKEN_LIMITS)"

text \<open>
  What \<^verbatim>\<open>getTokenLimit\<close> returns: a number, or, for a name that is no own property of
  the table and names a member of \<^verbatim>\<open>Object.prototype\<close>, that member (a function, or the
  prototype itself for \<^verbatim>\<open>__proto__\<close>), all of which are truthy.
\<close>

datatype token_limit = Limit number | PrototypeMember string

text \<open>The fallback of \<^verbatim>\<open>getTokenLimit\<close>: its substring rules and its default.\<close>

definition pattern_fallback :: "string \<Rightarrow> number" where
  "pattern_fallback modelName =
     (if str_includes modelName ''gpt-4'' \<or> str_includes modelName ''claude-3'' then Number 128000
      else if str_includes modelName ''gpt-3.5'' \<or> str_includes modelName ''mini''
              \<or> str_includes modelName ''lite'' then Number 16384
      else Number 1048576)"

text \<open>
  \<^verbatim>\<open>getTokenLimit\<close>: what \<^verbatim>\<open>this.tokenLimits[modelName]\<close> reads is returned when it is
  truthy; otherwise the fallback decides.
\<close>

definition getTokenLimit :: "ModelTokenLimits \<Rightarrow> string \<Rightarrow> token_limit" where
  "getTokenLimit tokenLimits modelName =
     (case tokenLimits modelName of
        Some n \<Rightarrow> if number_truthy n then Limit n else Limit (pattern_fallback modelName)
      | None \<Rightarrow>
          if modelName \<in> set object_prototype_names then PrototypeMember modelName
          else Limit (pattern_fallback modelName))"

section \<open>tokenLimit\<close>

definition DEFAULT_TOKEN_LIMIT :: number where
  "DEFAULT_TOKEN_LIMIT = Number 1048576"

text \<open>
  \<^verbatim>\<open>tokenLimit\<close>. The first argument is what \<^verbatim>\<open>require('../config/modelConfig.js')\<close>
  gives: \<open>Some\<close> of the manager's initialised table, or \<open>None\<close> when the \<^verbatim>\<open>require\<close>
  throws and the \<^verbatim>\<open>catch\<close> falls through to the patterns. \<^verbatim>\<open>getTokenLimit\<close> never
  returns \<^verbatim>\<open>undefined\<close>, so with a manager the test \<^verbatim>\<open>configuredLimit !== undefined\<close>
  always succeeds.
\<close>

definition tokenLimit :: "ModelTokenLimits option \<Rightarrow> string \<Rightarrow> token_limit" where
  "tokenLimit modelConfig model =
     (if model = ''gemini-1.5-pro'' then Limit (Number 2097152)
      else if model \<in> set [''gemini-1.5-flash'', ''gemini-2.5-pro-preview-05-06'',
                ''gemini-2.5-pro-preview-06-05'', ''gemini-2.5-pro'',
                ''gemini-2.5-flash-preview-05-20'', ''gemini-2.5-flash'',
                ''gemini-2.5-flash-lite'', ''gemini-2.0-flash''] then Limit (Number 1048576)
      else if model = ''gemini-2.0-flash-preview-image-generation'' then Limit (Number 32000)
      else (case modelConfig of
              Some tokenLimits \<Rightarrow> getTokenLimit tokenLimits model
            | None \<Rightarrow>
                if regex_test re_gpt4 model then Limit (Number 128000)
                else if regex_test re_claude model then Limit (Number 200000)
                else if regex_test re_llama3 model then Limit (Number 128000)
                else if regex_test re_mini_lite model then Limit (Number 16384)
                else Limit DEFAULT_TOKEN_LIMIT))"

text \<open>The names \<^verbatim>\<open>tokenLimit\<close> answers from its own \<^verbatim>\<open>switch\<close>.\<close>

definition switch_models :: "string list" where
  "switch_models =
     [''gemini-1.5-pro'', ''gemini-1.5-flash'', ''gemini-2.5-pro-preview-05-06'',
      ''gemini-2.5-pro-preview-06-05'', ''gemini-2.5-pro'', ''gemini-2.5-flash-preview-05-20'',
      ''gemini-2.5-flash'', ''gemini-2.5-flash-lite'', ''gemini-2.0-flash'',
      ''gemini-2.0-flash-preview-image-generation'']"

text \<open>The layer that the process environment alone contributes.\<close>

definition env_overrides :: "(string \<Rightarrow> string) \<Rightarrow> (string \<times> string) list \<Rightarrow> ModelTokenLimits" where
  "env_overrides toLowerCase env = loadFromProcessEnv toLowerCase env Map.empty"

section \<open>JavaScript values\<close>

text \<open>
  What \<^verbatim>\<open>response.json()\<close> and \<^verbatim>\<open>JSON.parse\<close> return, with \<^verbatim>\<open>undefined\<close> for what a
  property read can give in addition. Numbers are rationals (no \<^verbatim>\<open>NaN\<close>, no
  infinities). An object is the list of its properties, a key bound at most once
  being looked up by \<open>map_of\<close>.
\<close>

datatype js = Undefined | Null | Bool bool | Num rat | Str string | Arr "js list"
  | Obj "(string \<times> js) list"

fun truthy :: "js \<Rightarrow> bool" where
  "truthy Undefined = False"
| "truthy Null = False"
| "truthy (Bool b) = b"
| "truthy (Num n) = (n \<noteq> 0)"
| "truthy (Str s) = (s \<noteq> [])"
| "truthy (Arr xs) = True"
| "truthy (Obj fs) = True"

definition nullish :: "js \<Rightarrow> bool" where
  "nullish v = (v = Undefined \<or> v = Null)"

text \<open>
  \<open>get_prop v k\<close> is \<^verbatim>\<open>v.k\<close> for a value \<open>v\<close> that is neither \<^verbatim>\<open>null\<close> nor \<^verbatim>\<open>undefined\<close> and
  one of the property names the source reads (\<^verbatim>\<open>choices\<close>, \<^verbatim>\<open>message\<close>, \<^verbatim>\<open>content\<close>,
  \<^verbatim>\<open>delta\<close>, \<^verbatim>\<open>finish_reason\<close>, \<^verbatim>\<open>index\<close>, \<^verbatim>\<open>usage\<close> and the token counts): only an
  object can hold one of these. On \<^verbatim>\<open>null\<close> and \<^verbatim>\<open>undefined\<close> the read raises a
  \<^verbatim>\<open>TypeError\<close>, which the functions below test for before they call \<open>get_prop\<close>.
\<close>

fun get_prop :: "js \<Rightarrow> string \<Rightarrow> js" where
  "get_prop (Obj fs) k = (case map_of fs k of Some v \<Rightarrow> v | None \<Rightarrow> Undefined)"
| "get_prop v k = Undefined"

text \<open>\<^verbatim>\<open>v?.k\<close>\<close>

definition opt_prop :: "js \<Rightarrow> string \<Rightarrow> js" where
  "opt_prop v k = (if nullish v then Undefined else get_prop v k)"

text \<open>\<^verbatim>\<open>v[0]\<close> for a value that is neither \<^verbatim>\<open>null\<close> nor \<^verbatim>\<open>undefined\<close>.\<close>

fun elem0 :: "js \<Rightarrow> js" where
  "elem0 (Arr xs) = (case xs of [] \<Rightarrow> Undefined | x # _ \<Rightarrow> x)"
| "elem0 (Str s) = (case s of [] \<Rightarrow> Undefined | c # _ \<Rightarrow> Str [c])"
| "elem0 (Obj fs) = (case map_of fs ''0'' of Some v \<Rightarrow> v | None \<Rightarrow> Undefined)"
| "elem0 v = Undefined"

fun isArray :: "js \<Rightarrow> bool" where
  "isArray (Arr xs) = True"
| "isArray v = False"

text \<open>\<^verbatim>\<open>a || b\<close>\<close>

definition js_or :: "js \<Rightarrow> js \<Rightarrow> js" where
  "js_or a b = (if truthy a then a else b)"

text \<open>\<^verbatim>\<open>a || b\<close> on optional numbers: \<^verbatim>\<open>undefined\<close> and \<open>0\<close> are falsy.\<close>

definition num_or :: "rat option \<Rightarrow> rat option \<Rightarrow> rat option" where
  "num_or a b = (case a of Some x \<Rightarrow> if x \<noteq> 0 then Some x else b | None \<Rightarrow> b)"

text \<open>
  The errors. \<open>ApiError status statusText message\<close> stands for the \<^verbatim>\<open>Error\<close> with the
  message \<^verbatim>\<open>OpenAI API error: <status> <statusText>. <message>\<close>.
\<close>

datatype error = Error string | TypeError | SyntaxError | ApiError nat string js

section \<open>FormatMapper\<close>

text \<open>
  \<^verbatim>\<open>Content\<close> and \<^verbatim>\<open>Part\<close> of the Gemini SDK: the role and the parts are optional, and
  a part carries an optional text (a part of another kind has none).
\<close>

record Part =
  part_text :: "string option"

record Content =
  role :: "string option"
  parts :: "Part list option"

record OpenAIMessage =
  msg_role :: "string option"
  msg_content :: string

text \<open>
  \<^verbatim>\<open>geminiToOpenAI\<close>: the parts with a truthy text are kept, their texts are joined
  without a separator.
\<close>

definition geminiToOpenAI :: "Content list \<Rightarrow> OpenAIMessage list" where
  "geminiToOpenAI contents =
     map (\<lambda>content.
            let r = (if role content = Some ''model'' then Some ''assistant'' else role content);
                textParts = (case parts content of
                               Some ps \<Rightarrow> filter (\<lambda>part. part_text part \<noteq> None \<and> part_text part \<noteq> Some []) ps
                             | None \<Rightarrow> []);
                content_text = concat (map (\<lambda>part. the (part_text part)) textParts)
            in \<lparr>msg_role = r, msg_content = content_text\<rparr>)
         contents"

definition openAIToGemini :: "OpenAIMessage list \<Rightarrow> Content list" where
  "openAIToGemini messages =
     map (\<lambda>msg. \<lparr>role = (if msg_role msg = Some ''assistant'' then Some ''model'' else msg_role msg),
                 parts = Some [\<lparr>part_text = Some (msg_content msg)\<rparr>]\<rparr>)
         messages"

text \<open>The text of a content: its parts' texts in order, a part without text adding nothing.\<close>

definition flattened_text :: "Content \<Rightarrow> string" where
  "flattened_text c =
     concat (map (\<lambda>p. case part_text p of Some t \<Rightarrow> t | None \<Rightarrow> [])
                 (case parts c of Some ps \<Rightarrow> ps | None \<Rightarrow> []))"

text \<open>
  The candidate and the response that \<^verbatim>\<open>openAIResponseToGemini\<close> builds. The text, the
  finish reason and the index are whatever values the upstream response holds.
\<close>

record Candidate =
  cand_role :: string
  cand_text :: js
  finishReason :: js
  index :: js

record UsageMetadata =
  promptTokenCount :: js
  candidatesTokenCount :: js
  totalTokenCount :: js

record GenerateContentResponse =
  candidates :: "Candidate list"
  usageMetadata :: "UsageMetadata option"

text \<open>
  \<^verbatim>\<open>openAIResponseToGemini\<close>. The first read, \<^verbatim>\<open>response.choices\<close>, raises on a
  \<^verbatim>\<open>null\<close> response; every later read is on a value already found truthy, or goes
  through \<^verbatim>\<open>?.\<close>.
\<close>

definition synthetic_choice :: "js \<Rightarrow> js" where
  "synthetic_choice message =
     Obj [(''message'', message), (''finish_reason'', Str ''stop''), (''index'', Num 0)]"

definition select_choice :: "js \<Rightarrow> js \<times> js" where
  "select_choice response =
     (if truthy (get_prop response ''choices'') \<and> truthy (elem0 (get_prop response ''choices''))
      then (let choice = elem0 (get_prop response ''choices'')
            in (choice, js_or (opt_prop (opt_prop choice ''message'') ''content'') (Str [])))
      else if truthy (get_prop response ''message'') \<and> isArray (get_prop response ''message'')
              \<and> truthy (elem0 (get_prop response ''message''))
      then (let message = elem0 (get_prop response ''message'')
            in (synthetic_choice message, js_or (get_prop message ''content'') (Str [])))
      else if truthy (get_prop response ''message'') \<and> \<not> isArray (get_prop response ''message'')
      then (synthetic_choice (get_prop response ''message''),
            js_or (get_prop (get_prop response ''message'') ''content'') (Str []))
      else (Undefined, Str []))"

definition openAIResponseToGemini :: "js \<Rightarrow> error + GenerateContentResponse" where
  "openAIResponseToGemini response =
     (if nullish response then Inl TypeError
      else (let (choice, content) = select_choice response
            in Inr \<lparr>candidates =
                      [\<lparr>cand_role = ''model'', cand_text = content,
                        finishReason = js_or (opt_prop choice ''finish_reason'') (Str ''STOP''),
                        index = js_or (opt_prop choice ''index'') (Num 0)\<rparr>],
                    usageMetadata =
                      (if truthy (get_prop response ''usage'')
                       then Some \<lparr>promptTokenCount = get_prop (get_prop response ''usage'') ''prompt_tokens'',
                                  candidatesTokenCount =
                                    get_prop (get_prop response ''usage'') ''completion_tokens'',
                                  totalTokenCount = get_prop (get_prop response ''usage'') ''total_tokens''\<rparr>
                       else None)\<rparr>))"

section \<open>OpenAIContentGenerator\<close>

datatype ProviderType = GEMINI | OPENAI | OPENAI_COMPATIBLE

record OpenAIConfig =
  organization :: "string option"
  maxTokens :: "rat option"
  cfg_temperature :: "rat option"
  cfg_topP :: "rat option"

record ContentGeneratorConfig =
  provider :: "ProviderType option"
  cfg_model :: string
  apiKey :: "string option"
  baseUrl :: "string option"
  openaiConfig :: "OpenAIConfig option"

record OpenAIContentGenerator =
  gen_config :: ContentGeneratorConfig
  httpOptions_headers :: "string \<rightharpoonup> string"

record OpenAIRequest =
  req_model :: string
  messages :: "OpenAIMessage list"
  max_tokens :: "rat option"
  temperature :: "rat option"
  top_p :: "rat option"
  stream :: "bool option"

text \<open>
  The network. \<^verbatim>\<open>fetch\<close> is a function from the request to the response, and every
  call is appended to a log, so that what was sent, and whether anything was sent,
  can be stated. A response holds what the source reads from it: \<^verbatim>\<open>ok\<close>, the status,
  the body as \<^verbatim>\<open>json()\<close> parses it (\<open>None\<close> when it does not parse) and the chunks
  that the reader of the body delivers before \<^verbatim>\<open>done\<close> (\<open>None\<close> when there is no
  body).
\<close>

record http_request =
  url :: string
  http_method :: string
  headers :: "string \<rightharpoonup> string"
  body :: OpenAIRequest

record http_response =
  ok :: bool
  status :: nat
  statusText :: string
  json_body :: "js option"
  body_chunks :: "string list option"

type_synonym fetch = "http_request \<Rightarrow> http_response"

text \<open>The constructor: no request is made, the log is returned as it came.\<close>

definition is_unset :: "string option \<Rightarrow> bool" where
  "is_unset s = (s = None \<or> s = Some [])"

definition new_OpenAIContentGenerator ::
  "ContentGeneratorConfig \<Rightarrow> (string \<rightharpoonup> string) \<Rightarrow> http_request list
     \<Rightarrow> (error + OpenAIContentGenerator) \<times> http_request list" where
  "new_OpenAIContentGenerator cfg hdrs sent =
     (if is_unset (apiKey cfg) then (Inl (Error ''OpenAI API key is required''), sent)
      else (Inr \<lparr>gen_config = (if is_unset (baseUrl cfg)
                            then cfg\<lparr>baseUrl := Some ''https://api.openai.com/v1''\<rparr>
                            else cfg),
                 httpOptions_headers = hdrs\<rparr>, sent))"

text \<open>A template literal prints an absent string as \<^verbatim>\<open>undefined\<close>.\<close>

definition template :: "string option \<Rightarrow> string" where
  "template s = (case s of Some t \<Rightarrow> t | None \<Rightarrow> ''undefined'')"

definition with_organization ::
  "OpenAIContentGenerator \<Rightarrow> (string \<rightharpoonup> string) \<Rightarrow> (string \<rightharpoonup> string)" where
  "with_organization gen hs =
     (case openaiConfig (gen_config gen) of
        Some oc \<Rightarrow> if is_unset (organization oc) then hs
                   else hs(''OpenAI-Organization'' \<mapsto> the (organization oc))
      | None \<Rightarrow> hs)"

text \<open>The headers of \<^verbatim>\<open>makeRequest\<close>: the caller's headers are spread after the two
  fixed ones, the organization header is set last.\<close>

definition makeRequest_headers :: "OpenAIContentGenerator \<Rightarrow> (string \<rightharpoonup> string)" where
  "makeRequest_headers gen =
     with_organization gen
       ([''Content-Type'' \<mapsto> ''application/json'',
         ''Authorization'' \<mapsto> ''Bearer '' @ template (apiKey (gen_config gen))]
        ++ httpOptions_headers gen)"

definition makeStreamRequest_headers :: "OpenAIContentGenerator \<Rightarrow> (string \<rightharpoonup> string)" where
  "makeStreamRequest_headers gen =
     with_organization gen
       ([''Content-Type'' \<mapsto> ''application/json'',
         ''Authorization'' \<mapsto> ''Bearer '' @ template (apiKey (gen_config gen)),
         ''Accept'' \<mapsto> ''text/event-stream'']
        ++ httpOptions_headers gen)"

text \<open>The organization that the generator is configured with, if any.\<close>

definition configured_organization :: "OpenAIContentGenerator \<Rightarrow> string option" where
  "configured_organization gen =
     (case openaiConfig (gen_config gen) of
        Some oc \<Rightarrow> if is_unset (organization oc) then None else organization oc
      | None \<Rightarrow> None)"

text \<open>The error of a response that is not \<^verbatim>\<open>ok\<close>; a body that does not parse counts
  as the empty object.\<close>

definition api_error :: "http_response \<Rightarrow> error" where
  "api_error response =
     (let errorData = (case json_body response of Some v \<Rightarrow> v | None \<Rightarrow> Obj [])
      in if nullish errorData then TypeError
         else ApiError (status response) (statusText response)
                (js_or (opt_prop (get_prop errorData ''error'') ''message'') (Str [])))"

text \<open>The arguments of the \<^verbatim>\<open>fetch\<close> call of \<^verbatim>\<open>makeRequest\<close>.\<close>

definition makeRequest_call :: "OpenAIContentGenerator \<Rightarrow> string \<Rightarrow> OpenAIRequest \<Rightarrow> http_request" where
  "makeRequest_call gen endpoint b =
     \<lparr>url = template (baseUrl (gen_config gen)) @ endpoint, http_method = ''POST'',
      headers = makeRequest_headers gen, body = b\<rparr>"

definition makeRequest ::
  "fetch \<Rightarrow> OpenAIContentGenerator \<Rightarrow> string \<Rightarrow> OpenAIRequest \<Rightarrow> http_request list
     \<Rightarrow> (error + js) \<times> http_request list" where
  "makeRequest fetch gen endpoint b sent =
     (let response = fetch (makeRequest_call gen endpoint b)
      in (if \<not> ok response then Inl (api_error response)
          else (case json_body response of Some v \<Rightarrow> Inr v | None \<Rightarrow> Inl SyntaxError),
          sent @ [makeRequest_call gen endpoint b]))"

section \<open>The stream decoder\<close>

text \<open>\<^verbatim>\<open>buffer.split('\n')\<close>: the pieces between line feeds, always at least one.\<close>

fun split_nl :: "string \<Rightarrow> string list" where
  "split_nl [] = [[]]"
| "split_nl (c # cs) =
     (if c = CHR 0x0A then [] # split_nl cs
      else (case split_nl cs of l # ls \<Rightarrow> (c # l) # ls | [] \<Rightarrow> [[c]]))"

text \<open>
  One line of the loop body. \<^verbatim>\<open>JSON.parse\<close> belongs to the runtime: the decoder takes
  it as the parameter \<open>parse\<close>, \<open>None\<close> being the \<^verbatim>\<open>SyntaxError\<close> that the \<^verbatim>\<open>catch\<close>
  swallows.
\<close>

datatype line_result = Skip | Done | Yield js

definition handle_line :: "(string \<Rightarrow> js option) \<Rightarrow> string \<Rightarrow> line_result" where
  "handle_line parse line =
     (let trimmed = trim line
      in if trimmed = [] \<or> \<not> startsWith trimmed ''data: '' then Skip
         else (let data = drop 6 trimmed
               in if data = ''[DONE]'' then Done
                  else (case parse data of Some parsed \<Rightarrow> Yield parsed | None \<Rightarrow> Skip)))"

text \<open>The \<^verbatim>\<open>for\<close> loop over the lines: what is yielded, and whether \<^verbatim>\<open>[DONE]\<close> returned.\<close>

fun process_lines :: "(string \<Rightarrow> js option) \<Rightarrow> string list \<Rightarrow> js list \<times> bool" where
  "process_lines parse [] = ([], False)"
| "process_lines parse (line # lines) =
     (case handle_line parse line of
        Skip \<Rightarrow> process_lines parse lines
      | Done \<Rightarrow> ([], True)
      | Yield parsed \<Rightarrow> (let (ys, d) = process_lines parse lines in (parsed # ys, d)))"

text \<open>
  The loop body from the trimmed line on, and the loop over lines that are already
  trimmed: \<open>handle_line\<close> and \<open>process_lines\<close> depend on a line through its trimmed form
  only, and these say how.
\<close>

definition handle_trimmed :: "(string \<Rightarrow> js option) \<Rightarrow> string \<Rightarrow> line_result" where
  "handle_trimmed parse trimmed =
     (if trimmed = [] \<or> \<not> startsWith trimmed ''data: '' then Skip
      else (let data = drop 6 trimmed
            in if data = ''[DONE]'' then Done
               else (case parse data of Some parsed \<Rightarrow> Yield parsed | None \<Rightarrow> Skip)))"

fun process_trimmed :: "(string \<Rightarrow> js option) \<Rightarrow> string list \<Rightarrow> js list \<times> bool" where
  "process_trimmed parse [] = ([], False)"
| "process_trimmed parse (t # ts) =
     (case handle_trimmed parse t of
        Skip \<Rightarrow> process_trimmed parse ts
      | Done \<Rightarrow> ([], True)
      | Yield parsed \<Rightarrow> (let (ys, d) = process_trimmed parse ts in (parsed # ys, d)))"

text \<open>
  The \<^verbatim>\<open>while\<close> loop over the reads. The list holds the chunks that the reader
  delivers, as text; its end is \<^verbatim>\<open>done\<close>. The last piece of the split is the new
  buffer; a buffer left at \<^verbatim>\<open>done\<close> is never looked at.
\<close>

fun read_loop :: "(string \<Rightarrow> js option) \<Rightarrow> string \<Rightarrow> string list \<Rightarrow> js list" where
  "read_loop parse buffer [] = []"
| "read_loop parse buffer (chunk # chunks) =
     (let lines = split_nl (buffer @ chunk);
          (ys, d) = process_lines parse (butlast lines)
      in if d then ys else ys @ read_loop parse (last lines) chunks)"

text \<open>The arguments of the \<^verbatim>\<open>fetch\<close> call of \<^verbatim>\<open>makeStreamRequest\<close>.\<close>

definition makeStreamRequest_call ::
  "OpenAIContentGenerator \<Rightarrow> string \<Rightarrow> OpenAIRequest \<Rightarrow> http_request" where
  "makeStreamRequest_call gen endpoint b =
     \<lparr>url = template (baseUrl (gen_config gen)) @ endpoint, http_method = ''POST'',
      headers = makeStreamRequest_headers gen, body = b\<lparr>stream := Some True\<rparr>\<rparr>"

definition makeStreamRequest ::
  "(string \<Rightarrow> js option) \<Rightarrow> fetch \<Rightarrow> OpenAIContentGenerator \<Rightarrow> string \<Rightarrow> OpenAIRequest
     \<Rightarrow> http_request list \<Rightarrow> (error + js list) \<times> http_request list" where
  "makeStreamRequest parse fetch gen endpoint b sent =
     (let response = fetch (makeStreamRequest_call gen endpoint b)
      in (if \<not> ok response then Inl (api_error response)
          else (case body_chunks response of
                  None \<Rightarrow> Inl (Error ''Failed to get stream reader'')
                | Some chunks \<Rightarrow> Inr (read_loop parse [] chunks)),
          sent @ [makeStreamRequest_call gen endpoint b]))"

text \<open>
  \<^verbatim>\<open>convertStreamToGeminiFormat\<close>: the responses yielded, and the error that ends the
  sequence, if any. \<^verbatim>\<open>chunk.choices[0]\<close> raises when the chunk or its \<^verbatim>\<open>choices\<close> is
  \<^verbatim>\<open>null\<close> or \<^verbatim>\<open>undefined\<close>. The variable \<^verbatim>\<open>accumulatedContent\<close> is written and never
  read, and is left out. \<open>partial_response choice\<close> is the \<^verbatim>\<open>result\<close> built from a truthy
  \<^verbatim>\<open>choice\<close>.
\<close>

definition partial_response :: "js \<Rightarrow> GenerateContentResponse" where
  "partial_response choice =
     (let deltaContent = js_or (opt_prop (get_prop choice ''delta'') ''content'') (Str [])
      in \<lparr>candidates =
            [\<lparr>cand_role = ''model'', cand_text = deltaContent,
              finishReason = get_prop choice ''finish_reason'',
              index = js_or (get_prop choice ''index'') (Num 0)\<rparr>],
          usageMetadata = None\<rparr>)"

fun convertStreamToGeminiFormat :: "js list \<Rightarrow> GenerateContentResponse list \<times> error option" where
  "convertStreamToGeminiFormat [] = ([], None)"
| "convertStreamToGeminiFormat (chunk # chunks) =
     (if nullish chunk then ([], Some TypeError)
      else if nullish (get_prop chunk ''choices'') then ([], Some TypeError)
      else (let choice = elem0 (get_prop chunk ''choices'')
            in if \<not> truthy choice then convertStreamToGeminiFormat chunks
               else (let (rs, e) = convertStreamToGeminiFormat chunks
                     in (partial_response choice # rs, e))))"

section \<open>generateContent and generateContentStream\<close>

record GenerateContentConfig =
  gc_temperature :: "rat option"
  gc_topP :: "rat option"

datatype ContentListUnion = ContentArray "Content list" | SingleContent Content

record GenerateContentParameters =
  gc_model :: string
  gc_contents :: ContentListUnion
  gc_config :: "GenerateContentConfig option"

fun convertToContentArray :: "ContentListUnion \<Rightarrow> Content list" where
  "convertToContentArray (ContentArray cs) = cs"
| "convertToContentArray (SingleContent c) = [c]"

text \<open>The \<^verbatim>\<open>openAIRequest\<close> object that both methods build in the same way.\<close>

definition openAIRequest :: "OpenAIContentGenerator \<Rightarrow> GenerateContentParameters \<Rightarrow> OpenAIRequest" where
  "openAIRequest gen request =
     \<lparr>req_model = gc_model request,
      messages = geminiToOpenAI (convertToContentArray (gc_contents request)),
      max_tokens = (case openaiConfig (gen_config gen) of Some oc \<Rightarrow> maxTokens oc | None \<Rightarrow> None),
      temperature =
        num_or (case gc_config request of Some c \<Rightarrow> gc_temperature c | None \<Rightarrow> None)
               (case openaiConfig (gen_config gen) of Some oc \<Rightarrow> cfg_temperature oc | None \<Rightarrow> None),
      top_p =
        num_or (case gc_config request of Some c \<Rightarrow> gc_topP c | None \<Rightarrow> None)
               (case openaiConfig (gen_config gen) of Some oc \<Rightarrow> cfg_topP oc | None \<Rightarrow> None),
      stream = None\<rparr>"

definition generateContent ::
  "fetch \<Rightarrow> OpenAIContentGenerator \<Rightarrow> GenerateContentParameters \<Rightarrow> http_request list
     \<Rightarrow> (error + GenerateContentResponse) \<times> http_request list" where
  "generateContent fetch gen request sent =
     (let (r, sent') = makeRequest fetch gen ''/chat/completions'' (openAIRequest gen request) sent
      in (case r of Inl e \<Rightarrow> Inl e | Inr response \<Rightarrow> openAIResponseToGemini response, sent'))"

text \<open>
  \<^verbatim>\<open>generateContentStream\<close>, consumed to its end: the partial responses in order and
  the error that ends the sequence, if any.
\<close>

definition generateContentStream ::
  "(string \<Rightarrow> js option) \<Rightarrow> fetch \<Rightarrow> OpenAIContentGenerator \<Rightarrow> GenerateContentParameters
     \<Rightarrow> http_request list
     \<Rightarrow> (GenerateContentResponse list \<times> error option) \<times> http_request list" where
  "generateContentStream parse fetch gen request sent =
     (let (r, sent') = makeStreamRequest parse fetch gen ''/chat/completions''
                        (openAIRequest gen request) sent
      in (case r of Inl e \<Rightarrow> ([], Some e) | Inr parsed \<Rightarrow> convertStreamToGeminiFormat parsed,
          sent'))"

section \<open>Streams as lines\<close>

text \<open>The text of a stream whose lines are \<open>ls\<close>, each ended by a line feed.\<close>

definition unlines :: "string list \<Rightarrow> string" where
  "unlines ls = concat (map (\<lambda>l. l @ [CHR 0x0A]) ls)"

section \<open>A JSON reader\<close>

text \<open>
  A reader of JSON texts, to stand for \<^verbatim>\<open>JSON.parse\<close> in the examples. It reads objects,
  arrays, strings without escapes, unsigned integers and the three literals, and
  rejects every other text. The first argument bounds the nesting.
\<close>

definition is_json_ws :: "char \<Rightarrow> bool" where
  "is_json_ws c = (c \<in> set [CHR 0x20, CHR 0x09, CHR 0x0A, CHR 0x0D])"

fun read_value :: "nat \<Rightarrow> string \<Rightarrow> (js \<times> string) option"
  and read_elements :: "nat \<Rightarrow> string \<Rightarrow> (js list \<times> string) option"
  and read_members :: "nat \<Rightarrow> string \<Rightarrow> ((string \<times> js) list \<times> string) option"
where
  "read_value 0 s = None"
| "read_value (Suc n) s =
     (let t = dropWhile is_json_ws s
      in if startsWith t ''{'' then
           (if startsWith (dropWhile is_json_ws (tl t)) ''}''
            then Some (Obj [], tl (dropWhile is_json_ws (tl t)))
            else map_option (\<lambda>(ms, r). (Obj ms, r)) (read_members n (tl t)))
         else if startsWith t ''['' then
           (if startsWith (dropWhile is_json_ws (tl t)) '']''
            then Some (Arr [], tl (dropWhile is_json_ws (tl t)))
            else map_option (\<lambda>(vs, r). (Arr vs, r)) (read_elements n (tl t)))
         else if startsWith t [CHR 0x22] then
           (let str = takeWhile (\<lambda>c. c \<noteq> CHR 0x22) (tl t);
                r = dropWhile (\<lambda>c. c \<noteq> CHR 0x22) (tl t)
            in if r = [] then None
               else if CHR 0x5C \<in> set str then None
               else Some (Str str, tl r))
         else if startsWith t ''true'' then Some (Bool True, drop 4 t)
         else if startsWith t ''false'' then Some (Bool False, drop 5 t)
         else if startsWith t ''null'' then Some (Null, drop 4 t)
         else (let ds = takeWhile (\<lambda>c. digit_value c \<noteq> None) t
               in if ds = [] then None
                  else Some (Num (of_int (foldl (\<lambda>a c. 10 * a + the (digit_value c)) 0 ds)),
                             dropWhile (\<lambda>c. digit_value c \<noteq> None) t)))"
| "read_elements 0 s = None"
| "read_elements (Suc n) s =
     (case read_value n s of
        None \<Rightarrow> None
      | Some (v, r) \<Rightarrow>
          (let t = dropWhile is_json_ws r
           in if startsWith t '']'' then Some ([v], tl t)
              else if startsWith t '','' then
                map_option (\<lambda>(vs, r'). (v # vs, r')) (read_elements n (tl t))
              else None))"
| "read_members 0 s = None"
| "read_members (Suc n) s =
     (let t = dropWhile is_json_ws s
      in if startsWith t [CHR 0x22] then
           (let key = takeWhile (\<lambda>c. c \<noteq> CHR 0x22) (tl t);
                r = dropWhile is_json_ws (drop 1 (dropWhile (\<lambda>c. c \<noteq> CHR 0x22) (tl t)))
            in if CHR 0x5C \<in> set key then None
               else if startsWith r '':'' then
                 (case read_value n (tl r) of
                    None \<Rightarrow> None
                  | Some (v, r1) \<Rightarrow>
                      (let t1 = dropWhile is_json_ws r1
                       in if startsWith t1 ''}'' then Some ([(key, v)], tl t1)
                          else if startsWith t1 '','' then
                            map_option (\<lambda>(ms, r'). ((key, v) # ms, r')) (read_members n (tl t1))
                          else None))
               else None)
         else None)"

definition json_read :: "string \<Rightarrow> js option" where
  "json_read s =
     (case read_value (Suc (length s)) s of
        Some (v, r) \<Rightarrow> if dropWhile is_json_ws r = [] then Some v else None
      | None \<Rightarrow> None)"

section \<open>Example inputs\<close>

definition ex_contents :: "Content list" where
  "ex_contents =
     [\<lparr>role = Some ''user'',
       parts = Some [\<lparr>part_text = Some ''Hello, ''\<rparr>, \<lparr>part_text = None\<rparr>,
                     \<lparr>part_text = Some ''how are you?''\<rparr>]\<rparr>,
      \<lparr>role = Some ''model'', parts = Some [\<lparr>part_text = Some ''Fine.''\<rparr>]\<rparr>,
      \<lparr>role = Some ''user'', parts = None\<rparr>]"

definition resp_standard :: js where
  "resp_standard =
     Obj [(''id'', Str ''chatcmpl-123''),
          (''choices'', Arr [Obj [(''message'', Obj [(''role'', Str ''assistant''),
                                                     (''content'', Str ''Hello!'')])]])]"



definition ex_file_limits :: ModelTokenLimits where
  "ex_file_limits = [''gpt-4-custom'' \<mapsto> Number 5, ''custom-mini-model'' \<mapsto> Number 50000]"

definition ex_env :: "(string \<times> string) list" where
  "ex_env = [(''PATH'', ''/usr/bin''), (''MODEL_TOKEN_LIMIT_GPT_4_CUSTOM'', ''64000'')]"

text \<open>The frames of the streams considered below, and the chunks that the payloads of
  the two delta frames parse to.\<close>

definition frame_hel :: string where
  \<open>frame_hel = ''data: {"choices":[{"delta":{"content":"Hel"},"index":0}]}''\<close>

definition frame_lo :: string where
  \<open>frame_lo = ''data: {"choices":[{"delta":{"content":"lo"},"index":0}]}''\<close>

definition frame_done :: string where
  "frame_done = ''data: [DONE]''"

definition frame_not_json :: string where
  "frame_not_json = ''data: {not json''"

definition chunk_hel :: js where
  "chunk_hel =
     Obj [(''choices'', Arr [Obj [(''delta'', Obj [(''content'', Str ''Hel'')]), (''index'', Num 0)]])]"

definition chunk_lo :: js where
  "chunk_lo =
     Obj [(''choices'', Arr [Obj [(''delta'', Obj [(''content'', Str ''lo'')]), (''index'', Num 0)]])]"

definition ex_config :: ContentGeneratorConfig where
  "ex_config = \<lparr>provider = Some OPENAI, cfg_model = ''gpt-4'', apiKey = Some ''test-api-key'',
                 baseUrl = Some ''https://api.openai.com/v1'', openaiConfig = None\<rparr>"

definition ex_generator :: OpenAIContentGenerator where
  "ex_generator =
     \<lparr>gen_config = ex_config\<lparr>openaiConfig :=
          Some \<lparr>organization = None, maxTokens = None, cfg_temperature = Some (7 / 10),
                 cfg_topP = Some (9 / 10)\<rparr>\<rparr>,
      httpOptions_headers = Map.empty\<rparr>"

definition ex_generator_org :: OpenAIContentGenerator where
  "ex_generator_org =
     \<lparr>gen_config = ex_config\<lparr>openaiConfig :=
          Some \<lparr>organization = Some ''org-1'', maxTokens = None, cfg_temperature = None,
                 cfg_topP = None\<rparr>\<rparr>,
      httpOptions_headers = [''User-Agent'' \<mapsto> ''GeminiCLI/1.0'']\<rparr>"

definition ex_generator_auth :: OpenAIContentGenerator where
  "ex_generator_auth =
     \<lparr>gen_config = ex_config, httpOptions_headers = [''Authorization'' \<mapsto> ''Bearer other-key'']\<rparr>"

definition ex_request :: GenerateContentParameters where
  "ex_request =
     \<lparr>gc_model = ''gpt-4'',
      gc_contents = ContentArray [\<lparr>role = Some ''user'', parts = Some [\<lparr>part_text = Some ''Hello''\<rparr>]\<rparr>],
      gc_config = Some \<lparr>gc_temperature = Some 0, gc_topP = Some 0\<rparr>\<rparr>"

text \<open>A server that answers every request with status 200, the standard response as
  its JSON body and the given chunks as its stream.\<close>

definition ex_fetch :: "string list \<Rightarrow> fetch" where
  "ex_fetch chunks request =
     \<lparr>ok = True, status = 200, statusText = ''OK'', json_body = Some resp_standard,
      body_chunks = Some chunks\<rparr>"

text \<open>
  A stream of the three frames in server-sent-event style with CR LF line ends and a
  blank line after each frame, followed by two more frames that a decoder would
  handle if it read on after the end marker: one more delta, and a \<^verbatim>\<open>null\<close> chunk on
  which \<^verbatim>\<open>convertStreamToGeminiFormat\<close> raises. The chunks cut it inside a frame and
  between a carriage return and its line feed.
\<close>

definition ex_lines :: "string list" where
  "ex_lines =
     [frame_hel @ [CHR 0x0D], [CHR 0x0D], frame_lo @ [CHR 0x0D], [CHR 0x0D],
      frame_done @ [CHR 0x0D], [CHR 0x0D]]"

definition ex_rest :: string where
  \<open>ex_rest =
     ''data: {"choices":[{"delta":{"content":"!"},"index":0}]}'' @ [CHR 0x0A]
       @ ''data: null'' @ [CHR 0x0A]\<close>

definition ex_chunks :: "string list" where
  \<open>ex_chunks =
     [''data: {"choices":[{"delta":{"con'',
      ''tent":"Hel"},"index":0}]}'' @ [CHR 0x0D, CHR 0x0A, CHR 0x0D, CHR 0x0A] @ frame_lo
        @ [CHR 0x0D, CHR 0x0A],
      [CHR 0x0D, CHR 0x0A] @ frame_done @ [CHR 0x0D],
      [CHR 0x0A, CHR 0x0D, CHR 0x0A] @ ex_rest]\<close>

text \<open>A malformed data frame with a no-break space (U+00A0) at its end, between the two
  delta frames; and the same stream without it.\<close>

definition ex_bad_line :: string where
  "ex_bad_line = frame_not_json @ [CHR 0xC2, CHR 0xA0]"

definition ex_chunks_malformed :: "string list" where
  "ex_chunks_malformed =
     [frame_hel @ [CHR 0x0A] @ ''data: {not'',
      '' json'' @ [CHR 0xC2, CHR 0xA0, CHR 0x0A] @ frame_lo @ [CHR 0x0A]]"

definition ex_chunks_clean :: "string list" where
  "ex_chunks_clean = [frame_hel @ [CHR 0x0A], frame_lo @ [CHR 0x0A]]"

section \<open>Properties of the token-limit resolution\<close>

subsection \<open>The patterns as substring tests\<close>









subsection \<open>The table as three layers\<close>

lemma loadFromProcessEnv_layer:
  "loadFromProcessEnv lower env t = t ++ env_overrides lower env"
proof (induction env arbitrary: t)
  case Nil
  then show ?case by (simp add: env_overrides_def)
next
  case (Cons e env)
  obtain key val where e: "e = (key, val)" by (cases e)
  have step: "loadFromProcessEnv lower env u = u ++ loadFromProcessEnv lower env Map.empty" for u
    using Cons.IH [of u] by (simp add: env_overrides_def)
  show ?case
    unfolding e env_overrides_def loadFromProcessEnv.simps
    by (subst step, subst (2) step) (simp split: option.splits)
qed

lemma initialize_layers:
  "initialize lower config env =
     DEFAULT_TOKEN_LIMITS ++ (case config of Some f \<Rightarrow> f | None \<Rightarrow> Map.empty)
       ++ env_overrides lower env"
  by (simp add: initialize_def loadFromJson_def loadFromProcessEnv_layer split: option.splits)

lemma env_wins:
  "env_overrides lower env n = Some v \<Longrightarrow> initialize lower config env n = Some v"
  by (simp add: initialize_layers map_add_Some_iff)

lemma tokenLimit_outside_switch:
  assumes "model \<notin> set switch_models"
  shows "tokenLimit (Some tokenLimits) model = getTokenLimit tokenLimits model"
    and "tokenLimit None model =
      (if regex_test re_gpt4 model then Limit (Number 128000)
       else if regex_test re_claude model then Limit (Number 200000)
       else if regex_test re_llama3 model then Limit (Number 128000)
       else if regex_test re_mini_lite model then Limit (Number 16384)
       else Limit DEFAULT_TOKEN_LIMIT)"
proof -
  from assms have sw: "model \<noteq> ''gemini-1.5-pro''"
    "model \<notin> set [''gemini-1.5-flash'', ''gemini-2.5-pro-preview-05-06'',
                ''gemini-2.5-pro-preview-06-05'', ''gemini-2.5-pro'',
                ''gemini-2.5-flash-preview-05-20'', ''gemini-2.5-flash'',
                ''gemini-2.5-flash-lite'', ''gemini-2.0-flash'']"
    "model \<noteq> ''gemini-2.0-flash-preview-image-generation''"
    unfolding switch_models_def by auto
  show "tokenLimit (Some tokenLimits) model = getTokenLimit tokenLimits model"
    unfolding tokenLimit_def using sw by (simp only: if_False option.case)
  show "tokenLimit None model =
      (if regex_test re_gpt4 model then Limit (Number 128000)
       else if regex_test re_claude model then Limit (Number 200000)
       else if regex_test re_llama3 model then Limit (Number 128000)
       else if regex_test re_mini_lite model then Limit (Number 16384)
       else Limit DEFAULT_TOKEN_LIMIT)"
    unfolding tokenLimit_def using sw by (simp only: if_False option.case)
qed

lemma prototype_names_outside_switch:
  "model \<in> set object_prototype_names \<Longrightarrow> model \<notin> set switch_models"
  by (auto simp: object_prototype_names_def switch_models_def)

subsection \<open>Names without an entry\<close>




subsection \<open>Exact entries and environment overrides\<close>

lemma truthy_entry_returned:
  "tokenLimits m = Some v \<Longrightarrow> number_truthy v \<Longrightarrow> getTokenLimit tokenLimits m = Limit v"
  by (simp add: getTokenLimit_def)

text \<open>
  C4 (as the code has it). The table that \<^verbatim>\<open>getTokenLimit\<close> consults is the defaults
  overwritten by the file's entries overwritten by the environment overrides, so an
  environment override is the entry for its name whatever the file and the defaults
  hold. An entry other than \<^verbatim>\<open>0\<close> is returned before any pattern rule is looked at;
  in particular a name with an environment override other than \<^verbatim>\<open>0\<close> resolves to the
  override value even when a pattern matches the name. \<^verbatim>\<open>tokenLimit\<close> returns the same
  when the configuration module is loaded and the name is outside its own \<^verbatim>\<open>switch\<close>.
\<close>

theorem exact_entry_wins:
  "initialize lower config env =
     DEFAULT_TOKEN_LIMITS ++ (case config of Some f \<Rightarrow> f | None \<Rightarrow> Map.empty)
       ++ env_overrides lower env
   \<and> (env_overrides lower env m = Some v \<longrightarrow> initialize lower config env m = Some v)
   \<and> (tokenLimits m = Some v \<and> number_truthy v \<longrightarrow>
        getTokenLimit tokenLimits m = Limit v
        \<and> (m \<notin> set switch_models \<longrightarrow> tokenLimit (Some tokenLimits) m = Limit v))
   \<and> (env_overrides lower env m = Some v \<and> number_truthy v \<longrightarrow>
        getTokenLimit (initialize lower config env) m = Limit v
        \<and> (m \<notin> set switch_models \<longrightarrow>
             tokenLimit (Some (initialize lower config env)) m = Limit v))"
proof (intro conjI impI)
  show "initialize lower config env =
     DEFAULT_TOKEN_LIMITS ++ (case config of Some f \<Rightarrow> f | None \<Rightarrow> Map.empty)
       ++ env_overrides lower env"
    by (rule initialize_layers)
next
  assume "env_overrides lower env m = Some v"
  then show "initialize lower config env m = Some v" by (rule env_wins)
next
  assume "tokenLimits m = Some v \<and> number_truthy v"
  then show "getTokenLimit tokenLimits m = Limit v"
    by (simp add: truthy_entry_returned)
next
  assume "tokenLimits m = Some v \<and> number_truthy v" and "m \<notin> set switch_models"
  then show "tokenLimit (Some tokenLimits) m = Limit v"
    by (simp add: tokenLimit_outside_switch truthy_entry_returned)
next
  assume "env_overrides lower env m = Some v \<and> number_truthy v"
  then show "getTokenLimit (initialize lower config env) m = Limit v"
    by (simp add: truthy_entry_returned env_wins)
next
  assume "env_overrides lower env m = Some v \<and> number_truthy v" and "m \<notin> set switch_models"
  then show "tokenLimit (Some (initialize lower config env)) m = Limit v"
    by (simp add: tokenLimit_outside_switch truthy_entry_returned env_wins)
qed

theorem exact_entry_wins_witness:
  "env_overrides ascii_lower ex_env ''gpt-4-custom'' = Some (Number 64000)
   \<and> ex_file_limits ''gpt-4-custom'' = Some (Number 5)
   \<and> ''gpt-4-custom'' \<notin> set switch_models
   \<and> str_includes ''gpt-4-custom'' ''gpt-4''
   \<and> regex_test re_gpt4 ''gpt-4-custom''
   \<and> initialize ascii_lower (Some ex_file_limits) ex_env ''gpt-4-custom'' = Some (Number 64000)
   \<and> getTokenLimit (initialize ascii_lower (Some ex_file_limits) ex_env) ''gpt-4-custom''
       = Limit (Number 64000)
   \<and> tokenLimit (Some (initialize ascii_lower (Some ex_file_limits) ex_env)) ''gpt-4-custom''
       = Limit (Number 64000)
   \<and> initialize ascii_lower (Some ex_file_limits) ex_env ''custom-mini-model'' = Some (Number 50000)
   \<and> str_includes ''custom-mini-model'' ''mini''
   \<and> getTokenLimit (initialize ascii_lower (Some ex_file_limits) ex_env) ''custom-mini-model''
       = Limit (Number 50000)"
proof -
  let ?t = "initialize ascii_lower (Some ex_file_limits) ex_env"
  have h1: "env_overrides ascii_lower ex_env ''gpt-4-custom'' = Some (Number 64000)"
    by code_simp
  have h2: "number_truthy (Number 64000)" "number_truthy (Number 50000)" by simp_all
  have h3: "''gpt-4-custom'' \<notin> set switch_models" by code_simp
  have h4: "str_includes ''gpt-4-custom'' ''gpt-4''" "regex_test re_gpt4 ''gpt-4-custom''"
    "str_includes ''custom-mini-model'' ''mini''"
    "ex_file_limits ''gpt-4-custom'' = Some (Number 5)"
    by code_simp+
  have h5: "?t ''custom-mini-model'' = Some (Number 50000)" by code_simp
  note a = exact_entry_wins [of ascii_lower "Some ex_file_limits" ex_env "''gpt-4-custom''"
      "Number 64000" ?t]
  note b = exact_entry_wins [of ascii_lower "Some ex_file_limits" ex_env "''custom-mini-model''"
      "Number 50000" ?t]
  have r1: "?t ''gpt-4-custom'' = Some (Number 64000)"
    using a [THEN conjunct2, THEN conjunct1] h1 by (simp only: simp_thms)
  have r2: "getTokenLimit ?t ''gpt-4-custom'' = Limit (Number 64000)"
    "tokenLimit (Some ?t) ''gpt-4-custom'' = Limit (Number 64000)"
    using a [THEN conjunct2, THEN conjunct2, THEN conjunct2] h1 h2 h3 by (simp_all only: simp_thms)
  have r3: "getTokenLimit ?t ''custom-mini-model'' = Limit (Number 50000)"
    using b [THEN conjunct2, THEN conjunct2, THEN conjunct1] h5 h2 by (simp only: simp_thms)
  from h1 h3 h4 h5 r1 r2 r3 show ?thesis by (simp only: simp_thms)
qed

text \<open>
  C4 as stated fails in three places: an override of \<^verbatim>\<open>0\<close> is not the result (the
  substring rule for \<^verbatim>\<open>gpt-4\<close> gives 128000); \<^verbatim>\<open>tokenLimit\<close> answers a name of its
  \<^verbatim>\<open>switch\<close> before any table is consulted; and when the configuration module cannot be
  loaded \<^verbatim>\<open>tokenLimit\<close> consults no table at all, so that the pattern decides for a
  name that has an override.
\<close>

theorem env_override_counterexample:
  "env_overrides ascii_lower [(''MODEL_TOKEN_LIMIT_GPT_4_CUSTOM'', ''0'')] ''gpt-4-custom''
     = Some (Number 0)
   \<and> getTokenLimit (initialize ascii_lower None [(''MODEL_TOKEN_LIMIT_GPT_4_CUSTOM'', ''0'')])
        ''gpt-4-custom'' = Limit (Number 128000)
   \<and> tokenLimit (Some (initialize ascii_lower None [(''MODEL_TOKEN_LIMIT_GPT_4_CUSTOM'', ''0'')]))
        ''gpt-4-custom'' = Limit (Number 128000)
   \<and> env_overrides ascii_lower [(''MODEL_TOKEN_LIMIT_GEMINI_1.5_PRO'', ''5'')] ''gemini-1.5-pro''
     = Some (Number 5)
   \<and> tokenLimit (Some (initialize ascii_lower None [(''MODEL_TOKEN_LIMIT_GEMINI_1.5_PRO'', ''5'')]))
        ''gemini-1.5-pro'' = Limit (Number 2097152)
   \<and> env_overrides ascii_lower ex_env ''gpt-4-custom'' = Some (Number 64000)
   \<and> tokenLimit None ''gpt-4-custom'' = Limit (Number 128000)"
  by code_simp

subsection \<open>A zero entry\<close>

text \<open>
  C10 (as the code has it). When the table holds \<^verbatim>\<open>0\<close> for a model name,
  \<^verbatim>\<open>getTokenLimit\<close> does not return \<^verbatim>\<open>0\<close>: it falls through to its own case-sensitive
  substring rules (128000 for \<^verbatim>\<open>gpt-4\<close> or \<^verbatim>\<open>claude-3\<close>, else 16384 for \<^verbatim>\<open>gpt-3.5\<close>,
  \<^verbatim>\<open>mini\<close> or \<^verbatim>\<open>lite\<close>) and the default 1048576. For a name that is not the name of
  a member of \<^verbatim>\<open>Object.prototype\<close> this is what it returns with the entry removed.
\<close>

theorem getTokenLimit_zero_entry:
  assumes "tokenLimits modelName = Some (Number 0)"
  shows "getTokenLimit tokenLimits modelName \<noteq> Limit (Number 0)
         \<and> getTokenLimit tokenLimits modelName =
             Limit (if str_includes modelName ''gpt-4'' \<or> str_includes modelName ''claude-3''
                    then Number 128000
                    else if str_includes modelName ''gpt-3.5'' \<or> str_includes modelName ''mini''
                            \<or> str_includes modelName ''lite'' then Number 16384
                    else Number 1048576)
         \<and> (modelName \<notin> set object_prototype_names \<longrightarrow>
              getTokenLimit tokenLimits modelName
                = getTokenLimit (tokenLimits(modelName := None)) modelName)"
  using assms by (simp add: getTokenLimit_def pattern_fallback_def)

theorem getTokenLimit_zero_entry_witness:
  "initialize ascii_lower None [(''MODEL_TOKEN_LIMIT_X'', ''0'')] ''x'' = Some (Number 0)
   \<and> ''x'' \<notin> set object_prototype_names
   \<and> getTokenLimit (initialize ascii_lower None [(''MODEL_TOKEN_LIMIT_X'', ''0'')]) ''x''
       = Limit (Number 1048576)
   \<and> getTokenLimit ((initialize ascii_lower None [(''MODEL_TOKEN_LIMIT_X'', ''0'')])(''x'' := None)) ''x''
       = Limit (Number 1048576)"
proof -
  let ?t = "initialize ascii_lower None [(''MODEL_TOKEN_LIMIT_X'', ''0'')]"
  have h: "?t ''x'' = Some (Number 0)" by code_simp
  have p: "''x'' \<notin> set object_prototype_names" by code_simp
  have e: "\<not> str_includes ''x'' ''gpt-4''" "\<not> str_includes ''x'' ''claude-3''"
    "\<not> str_includes ''x'' ''gpt-3.5''" "\<not> str_includes ''x'' ''mini''" "\<not> str_includes ''x'' ''lite''"
    by code_simp+
  note a = getTokenLimit_zero_entry [of ?t "''x''", OF h]
  have r1: "getTokenLimit ?t ''x'' = Limit (Number 1048576)"
    using a [THEN conjunct2, THEN conjunct1] by (simp only: e if_False simp_thms)
  have r2: "getTokenLimit (?t(''x'' := None)) ''x'' = Limit (Number 1048576)"
    using a [THEN conjunct2, THEN conjunct2] p r1 by simp
  from h p r1 r2 show ?thesis by (simp only: simp_thms)
qed

text \<open>
  C10 as stated fails: the fall-through is not to the regular expressions. With a zero
  entry for \<^verbatim>\<open>llama-3-x\<close> the result is the default 1048576, although the Llama pattern
  matches the name and gives 128000 where the patterns apply.
\<close>

theorem zero_entry_counterexample:
  "initialize ascii_lower None [(''MODEL_TOKEN_LIMIT_LLAMA_3_X'', ''0'')] ''llama-3-x''
     = Some (Number 0)
   \<and> \<not> regex_test re_gpt4 ''llama-3-x''
   \<and> \<not> regex_test re_claude ''llama-3-x''
   \<and> regex_test re_llama3 ''llama-3-x''
   \<and> tokenLimit None ''llama-3-x'' = Limit (Number 128000)
   \<and> getTokenLimit (initialize ascii_lower None [(''MODEL_TOKEN_LIMIT_LLAMA_3_X'', ''0'')])
        ''llama-3-x'' = Limit (Number 1048576)"
  by code_simp

section \<open>Properties of the format mapper\<close>

subsection \<open>Round trip through the OpenAI messages\<close>

lemma join_text_parts:
  "concat (map (\<lambda>part. the (part_text part))
             (filter (\<lambda>part. part_text part \<noteq> None \<and> part_text part \<noteq> Some []) ps))
   = concat (map (\<lambda>p. case part_text p of Some t \<Rightarrow> t | None \<Rightarrow> []) ps)"
  by (induction ps) (auto split: option.splits)

lemma content_text:
  "concat (map (\<lambda>part. the (part_text part))
             (case parts c of
                Some ps \<Rightarrow> filter (\<lambda>part. part_text part \<noteq> None \<and> part_text part \<noteq> Some []) ps
              | None \<Rightarrow> []))
   = flattened_text c"
proof (cases "parts c")
  case None
  then show ?thesis by (simp add: flattened_text_def)
next
  case (Some ps)
  then show ?thesis
    unfolding flattened_text_def by (simp only: option.case join_text_parts)
qed

lemma geminiToOpenAI_content:
  "map msg_content (geminiToOpenAI contents) = map flattened_text contents"
  unfolding geminiToOpenAI_def Let_def map_map comp_def
  by (simp only: OpenAIMessage.simps content_text)

lemma geminiToOpenAI_role:
  "map msg_role (geminiToOpenAI contents) =
     map (\<lambda>c. if role c = Some ''model'' then Some ''assistant'' else role c) contents"
  by (simp add: geminiToOpenAI_def Let_def)

lemma openAIToGemini_text:
  "map flattened_text (openAIToGemini msgs) = map msg_content msgs"
  by (simp add: openAIToGemini_def flattened_text_def)

text \<open>
  C9. For every list of Gemini contents (none with the role \<^verbatim>\<open>assistant\<close>, which is no
  Gemini role), \<^verbatim>\<open>geminiToOpenAI\<close> followed by \<^verbatim>\<open>openAIToGemini\<close> gives a list of the same
  length with the same role at every position, \<^verbatim>\<open>model\<close> having been \<^verbatim>\<open>assistant\<close> in
  between, and with the same flattened text at every position: the concatenation of
  the texts of the original parts. The parts themselves are not preserved.
\<close>

theorem gemini_openai_round_trip:
  assumes "\<forall>c \<in> set contents. role c \<noteq> Some ''assistant''"
  shows "length (openAIToGemini (geminiToOpenAI contents)) = length contents
         \<and> map msg_role (geminiToOpenAI contents) =
             map (\<lambda>c. if role c = Some ''model'' then Some ''assistant'' else role c) contents
         \<and> map role (openAIToGemini (geminiToOpenAI contents)) = map role contents
         \<and> map flattened_text (openAIToGemini (geminiToOpenAI contents)) =
             map flattened_text contents"
proof -
  have len: "length (openAIToGemini (geminiToOpenAI contents)) = length contents"
    by (simp add: openAIToGemini_def geminiToOpenAI_def)
  have roles: "map role (openAIToGemini (geminiToOpenAI contents)) = map role contents"
    using assms by (auto simp: openAIToGemini_def geminiToOpenAI_def Let_def)
  have texts: "map flattened_text (openAIToGemini (geminiToOpenAI contents)) =
      map flattened_text contents"
    by (simp only: openAIToGemini_text geminiToOpenAI_content)
  from len roles texts geminiToOpenAI_role show ?thesis by blast
qed

theorem gemini_openai_round_trip_witness:
  "Some ''assistant'' \<notin> set (map role ex_contents)
   \<and> geminiToOpenAI ex_contents =
        [\<lparr>msg_role = Some ''user'', msg_content = ''Hello, how are you?''\<rparr>,
         \<lparr>msg_role = Some ''assistant'', msg_content = ''Fine.''\<rparr>,
         \<lparr>msg_role = Some ''user'', msg_content = ''''\<rparr>]
   \<and> map role (openAIToGemini (geminiToOpenAI ex_contents)) =
        [Some ''user'', Some ''model'', Some ''user'']
   \<and> map flattened_text (openAIToGemini (geminiToOpenAI ex_contents)) =
        [''Hello, how are you?'', ''Fine.'', '''']"
proof -
  have h: "\<forall>c \<in> set ex_contents. role c \<noteq> Some ''assistant''"
    by (simp add: ex_contents_def)
  have m: "geminiToOpenAI ex_contents =
        [\<lparr>msg_role = Some ''user'', msg_content = ''Hello, how are you?''\<rparr>,
         \<lparr>msg_role = Some ''assistant'', msg_content = ''Fine.''\<rparr>,
         \<lparr>msg_role = Some ''user'', msg_content = ''''\<rparr>]"
    by (simp add: ex_contents_def geminiToOpenAI_def)
  have r: "map role ex_contents = [Some ''user'', Some ''model'', Some ''user'']"
    by (simp add: ex_contents_def)
  have t: "map flattened_text ex_contents = [''Hello, how are you?'', ''Fine.'', '''']"
    by (simp add: ex_contents_def flattened_text_def)
  have n: "Some ''assistant'' \<notin> set (map role ex_contents)"
    by (simp add: r)
  from gemini_openai_round_trip [OF h] n m show ?thesis
    by (simp only: r t simp_thms)
qed

subsection \<open>The three response shapes\<close>










section \<open>Properties of the generator\<close>

subsection \<open>Construction\<close>

text \<open>
  C8. Constructing the generator from a configuration whose API key is absent (or
  empty) fails with the error \<^verbatim>\<open>OpenAI API key is required\<close>, and nothing has been sent:
  the log of requests is as before. When the key is present and the base URL is unset,
  construction succeeds, again without a request, and the base URL of the generator is
  \<^verbatim>\<open>https://api.openai.com/v1\<close>.
\<close>

theorem constructor_requires_api_key:
  "(is_unset (apiKey cfg) \<longrightarrow>
      new_OpenAIContentGenerator cfg hdrs sent = (Inl (Error ''OpenAI API key is required''), sent))
   \<and> (\<not> is_unset (apiKey cfg) \<and> is_unset (baseUrl cfg) \<longrightarrow>
      (\<exists>gen. new_OpenAIContentGenerator cfg hdrs sent = (Inr gen, sent)
             \<and> baseUrl (gen_config gen) = Some ''https://api.openai.com/v1''
             \<and> gen_config gen = cfg\<lparr>baseUrl := Some ''https://api.openai.com/v1''\<rparr>
             \<and> httpOptions_headers gen = hdrs))"
  by (simp add: new_OpenAIContentGenerator_def)

theorem constructor_requires_api_key_witness:
  "is_unset (apiKey (ex_config\<lparr>apiKey := None\<rparr>))
   \<and> new_OpenAIContentGenerator (ex_config\<lparr>apiKey := None\<rparr>) Map.empty []
       = (Inl (Error ''OpenAI API key is required''), [])
   \<and> \<not> is_unset (apiKey (ex_config\<lparr>baseUrl := None\<rparr>))
   \<and> is_unset (baseUrl (ex_config\<lparr>baseUrl := None\<rparr>))
   \<and> new_OpenAIContentGenerator (ex_config\<lparr>baseUrl := None\<rparr>) Map.empty []
       = (Inr \<lparr>gen_config = ex_config, httpOptions_headers = Map.empty\<rparr>, [])"
proof -
  have h1: "is_unset (apiKey (ex_config\<lparr>apiKey := None\<rparr>))"
    by (simp add: is_unset_def)
  have h2: "\<not> is_unset (apiKey (ex_config\<lparr>baseUrl := None\<rparr>))"
    "is_unset (baseUrl (ex_config\<lparr>baseUrl := None\<rparr>))"
    by (simp_all add: is_unset_def ex_config_def)
  have e: "ex_config\<lparr>baseUrl := None, baseUrl := Some ''https://api.openai.com/v1''\<rparr> = ex_config"
    by (simp add: ex_config_def)
  from constructor_requires_api_key [of "ex_config\<lparr>apiKey := None\<rparr>" Map.empty "[]"]
    constructor_requires_api_key [of "ex_config\<lparr>baseUrl := None\<rparr>" Map.empty "[]"]
    h1 h2 e
  show ?thesis by auto
qed

subsection \<open>The request that is sent\<close>

lemma num_or_cases:
  "num_or a b = (if a = None \<or> a = Some 0 then b else a)"
  by (auto simp: num_or_def split: option.splits)

lemma request_tuning:
  "temperature (openAIRequest gen request) =
     num_or (case gc_config request of Some c \<Rightarrow> gc_temperature c | None \<Rightarrow> None)
            (case openaiConfig (gen_config gen) of Some oc \<Rightarrow> cfg_temperature oc | None \<Rightarrow> None)"
  "top_p (openAIRequest gen request) =
     num_or (case gc_config request of Some c \<Rightarrow> gc_topP c | None \<Rightarrow> None)
            (case openaiConfig (gen_config gen) of Some oc \<Rightarrow> cfg_topP oc | None \<Rightarrow> None)"
  by (simp_all add: openAIRequest_def)

lemma generateContent_sends:
  "snd (generateContent fetch gen request sent) =
     sent @ [makeRequest_call gen ''/chat/completions'' (openAIRequest gen request)]"
  by (simp add: generateContent_def makeRequest_def Let_def)

lemma generateContentStream_sends:
  "snd (generateContentStream parse fetch gen request sent) =
     sent @ [makeStreamRequest_call gen ''/chat/completions'' (openAIRequest gen request)]"
  by (simp add: generateContentStream_def makeStreamRequest_def Let_def)

lemma call_fields:
  "headers (makeRequest_call gen endpoint b) = makeRequest_headers gen"
  "headers (makeStreamRequest_call gen endpoint b) = makeStreamRequest_headers gen"
  "body (makeRequest_call gen endpoint b) = b"
  "body (makeStreamRequest_call gen endpoint b) = b\<lparr>stream := Some True\<rparr>"
  by (simp_all add: makeRequest_call_def makeStreamRequest_call_def)

text \<open>
  C7, at the input where the code departs from it. The per-call temperature and topP
  are both \<open>0\<close> and the generator is configured with \<open>7/10\<close> and \<open>9/10\<close>: the request
  that \<^verbatim>\<open>generateContent\<close> sends, and the one that \<^verbatim>\<open>generateContentStream\<close> sends,
  carry the configured values, not the per-call \<open>0\<close>.
\<close>

theorem per_call_zero_falls_back:
  "map (temperature \<circ> body) (snd (generateContent (ex_fetch []) ex_generator ex_request []))
     = [Some (7 / 10)]
   \<and> map (top_p \<circ> body) (snd (generateContent (ex_fetch []) ex_generator ex_request []))
     = [Some (9 / 10)]
   \<and> map (temperature \<circ> body)
         (snd (generateContentStream json_read (ex_fetch []) ex_generator ex_request []))
     = [Some (7 / 10)]
   \<and> map (top_p \<circ> body)
         (snd (generateContentStream json_read (ex_fetch []) ex_generator ex_request []))
     = [Some (9 / 10)]"
  by (simp add: generateContent_sends generateContentStream_sends call_fields request_tuning
      ex_generator_def ex_request_def ex_config_def num_or_def)

subsection \<open>The headers\<close>

lemma with_organization_apply:
  "with_organization gen hs k =
     (if k = ''OpenAI-Organization'' \<and> configured_organization gen \<noteq> None
      then configured_organization gen else hs k)"
  by (auto simp: with_organization_def configured_organization_def is_unset_def
      split: option.splits)

lemma makeRequest_headers_apply:
  "makeRequest_headers gen k =
     (if k = ''OpenAI-Organization'' \<and> configured_organization gen \<noteq> None
      then configured_organization gen
      else (case httpOptions_headers gen k of
              Some v \<Rightarrow> Some v
            | None \<Rightarrow>
                if k = ''Authorization''
                then Some (''Bearer '' @ template (apiKey (gen_config gen)))
                else if k = ''Content-Type'' then Some ''application/json'' else None))"
  unfolding makeRequest_headers_def with_organization_apply
  by (simp add: map_add_def split: option.splits)

lemma makeStreamRequest_headers_apply:
  "makeStreamRequest_headers gen k =
     (if k = ''OpenAI-Organization'' \<and> configured_organization gen \<noteq> None
      then configured_organization gen
      else (case httpOptions_headers gen k of
              Some v \<Rightarrow> Some v
            | None \<Rightarrow>
                if k = ''Accept'' then Some ''text/event-stream''
                else if k = ''Authorization''
                then Some (''Bearer '' @ template (apiKey (gen_config gen)))
                else if k = ''Content-Type'' then Some ''application/json'' else None))"
  unfolding makeStreamRequest_headers_def with_organization_apply
  by (simp add: map_add_def split: option.splits)

lemma request_headers_dom:
  "dom (makeRequest_headers gen) =
     dom (httpOptions_headers gen) \<union> {''Content-Type'', ''Authorization''}
       \<union> (case configured_organization gen of Some org \<Rightarrow> {''OpenAI-Organization''} | None \<Rightarrow> {})"
  "dom (makeStreamRequest_headers gen) =
     dom (httpOptions_headers gen) \<union> {''Content-Type'', ''Authorization'', ''Accept''}
       \<union> (case configured_organization gen of Some org \<Rightarrow> {''OpenAI-Organization''} | None \<Rightarrow> {})"
  by (auto simp: dom_def makeRequest_headers_apply makeStreamRequest_headers_apply
      split: option.splits if_splits)

text \<open>
  C6 (as the code has it). The headers sent on a generate request and on a stream
  request are the provider's headers with the caller's headers spread over them and
  the organization header set last. So every caller-supplied header is sent with the
  caller's value, except an \<^verbatim>\<open>OpenAI-Organization\<close> header when an organization is
  configured; the \<^verbatim>\<open>Authorization\<close> header is \<^verbatim>\<open>Bearer\<close> followed by the API key whenever
  the caller supplies no \<^verbatim>\<open>Authorization\<close> header; likewise for \<^verbatim>\<open>Content-Type\<close>; and a
  configured organization is always sent as configured. No other header is sent.
\<close>

theorem request_headers_merge:
  "map headers (snd (generateContent fetch gen request [])) = [makeRequest_headers gen]
   \<and> map headers (snd (generateContentStream parse fetch gen request []))
       = [makeStreamRequest_headers gen]
   \<and> dom (makeRequest_headers gen) =
       dom (httpOptions_headers gen) \<union> {''Content-Type'', ''Authorization''}
         \<union> (case configured_organization gen of
              Some org \<Rightarrow> {''OpenAI-Organization''} | None \<Rightarrow> {})
   \<and> dom (makeStreamRequest_headers gen) =
       dom (httpOptions_headers gen) \<union> {''Content-Type'', ''Authorization'', ''Accept''}
         \<union> (case configured_organization gen of
              Some org \<Rightarrow> {''OpenAI-Organization''} | None \<Rightarrow> {})
   \<and> (\<forall>H \<in> {makeRequest_headers gen, makeStreamRequest_headers gen}.
        (\<forall>k v. httpOptions_headers gen k = Some v
                \<and> (k = ''OpenAI-Organization'' \<longrightarrow> configured_organization gen = None)
              \<longrightarrow> H k = Some v)
        \<and> (httpOptions_headers gen ''Authorization'' = None
              \<longrightarrow> H ''Authorization'' = Some (''Bearer '' @ template (apiKey (gen_config gen))))
        \<and> (httpOptions_headers gen ''Content-Type'' = None
              \<longrightarrow> H ''Content-Type'' = Some ''application/json'')
        \<and> (\<forall>org. configured_organization gen = Some org
              \<longrightarrow> H ''OpenAI-Organization'' = Some org))"
proof -
  have "\<forall>H \<in> {makeRequest_headers gen, makeStreamRequest_headers gen}.
        (\<forall>k v. httpOptions_headers gen k = Some v
                \<and> (k = ''OpenAI-Organization'' \<longrightarrow> configured_organization gen = None)
              \<longrightarrow> H k = Some v)
        \<and> (httpOptions_headers gen ''Authorization'' = None
              \<longrightarrow> H ''Authorization'' = Some (''Bearer '' @ template (apiKey (gen_config gen))))
        \<and> (httpOptions_headers gen ''Content-Type'' = None
              \<longrightarrow> H ''Content-Type'' = Some ''application/json'')
        \<and> (\<forall>org. configured_organization gen = Some org
              \<longrightarrow> H ''OpenAI-Organization'' = Some org)"
    by (simp add: makeRequest_headers_apply makeStreamRequest_headers_apply)
  moreover have "map headers (snd (generateContent fetch gen request [])) = [makeRequest_headers gen]"
    by (simp add: generateContent_sends call_fields)
  moreover have "map headers (snd (generateContentStream parse fetch gen request []))
       = [makeStreamRequest_headers gen]"
    by (simp add: generateContentStream_sends call_fields)
  ultimately show ?thesis
    by (intro conjI) (assumption | rule request_headers_dom)+
qed

theorem request_headers_merge_witness:
  "httpOptions_headers ex_generator_org ''User-Agent'' = Some ''GeminiCLI/1.0''
   \<and> httpOptions_headers ex_generator_org ''Authorization'' = None
   \<and> httpOptions_headers ex_generator_org ''Content-Type'' = None
   \<and> configured_organization ex_generator_org = Some ''org-1''
   \<and> makeRequest_headers ex_generator_org \<in>
        {makeRequest_headers ex_generator_org, makeStreamRequest_headers ex_generator_org}
   \<and> makeRequest_headers ex_generator_org ''User-Agent'' = Some ''GeminiCLI/1.0''
   \<and> makeRequest_headers ex_generator_org ''Authorization'' = Some ''Bearer test-api-key''
   \<and> makeRequest_headers ex_generator_org ''Content-Type'' = Some ''application/json''
   \<and> makeRequest_headers ex_generator_org ''OpenAI-Organization'' = Some ''org-1''"
proof -
  have h: "httpOptions_headers ex_generator_org ''User-Agent'' = Some ''GeminiCLI/1.0''"
    "httpOptions_headers ex_generator_org ''Authorization'' = None"
    "httpOptions_headers ex_generator_org ''Content-Type'' = None"
    "configured_organization ex_generator_org = Some ''org-1''"
    "''User-Agent'' \<noteq> ''OpenAI-Organization''"
    "template (apiKey (gen_config ex_generator_org)) = ''test-api-key''"
    by (simp_all add: ex_generator_org_def configured_organization_def is_unset_def ex_config_def
        template_def)
  have all: "\<forall>H \<in> {makeRequest_headers ex_generator_org, makeStreamRequest_headers ex_generator_org}.
        (\<forall>k v. httpOptions_headers ex_generator_org k = Some v
                \<and> (k = ''OpenAI-Organization'' \<longrightarrow> configured_organization ex_generator_org = None)
              \<longrightarrow> H k = Some v)
        \<and> (httpOptions_headers ex_generator_org ''Authorization'' = None
              \<longrightarrow> H ''Authorization'' = Some (''Bearer '' @ template (apiKey (gen_config ex_generator_org))))
        \<and> (httpOptions_headers ex_generator_org ''Content-Type'' = None
              \<longrightarrow> H ''Content-Type'' = Some ''application/json'')
        \<and> (\<forall>org. configured_organization ex_generator_org = Some org
              \<longrightarrow> H ''OpenAI-Organization'' = Some org)"
    by (rule request_headers_merge [of "ex_fetch []" ex_generator_org ex_request json_read,
          THEN conjunct2, THEN conjunct2, THEN conjunct2, THEN conjunct2])
  have a: "makeRequest_headers ex_generator_org ''User-Agent'' = Some ''GeminiCLI/1.0''"
    using all h(1,5) by blast
  have b: "makeRequest_headers ex_generator_org ''Authorization'' = Some ''Bearer test-api-key''"
    using all h(2,6) by simp
  have c: "makeRequest_headers ex_generator_org ''Content-Type'' = Some ''application/json''"
    using all h(3) by simp
  have d: "makeRequest_headers ex_generator_org ''OpenAI-Organization'' = Some ''org-1''"
    using all h(4) by simp
  from h(1-4) a b c d show ?thesis by simp
qed

text \<open>
  C6 as stated fails: a caller-supplied \<^verbatim>\<open>Authorization\<close> header replaces the bearer
  token of the configured API key, on both kinds of request.
\<close>

theorem caller_authorization_counterexample:
  "apiKey (gen_config ex_generator_auth) = Some ''test-api-key''
   \<and> httpOptions_headers ex_generator_auth ''Authorization'' = Some ''Bearer other-key''
   \<and> map headers (snd (generateContent (ex_fetch []) ex_generator_auth ex_request []))
       = [makeRequest_headers ex_generator_auth]
   \<and> makeRequest_headers ex_generator_auth ''Authorization'' = Some ''Bearer other-key''
   \<and> map headers
         (snd (generateContentStream json_read (ex_fetch []) ex_generator_auth ex_request []))
       = [makeStreamRequest_headers ex_generator_auth]
   \<and> makeStreamRequest_headers ex_generator_auth ''Authorization'' = Some ''Bearer other-key''"
  by (simp add: generateContent_sends generateContentStream_sends call_fields
      makeRequest_headers_apply makeStreamRequest_headers_apply ex_generator_auth_def
      ex_config_def)

section \<open>Properties of the stream decoder\<close>

subsection \<open>Lines and chunks\<close>

text \<open>
  However the text of the stream is cut into chunks, the loop handles the same lines in
  the same order: the pieces of the whole text that a line feed ends. A line counts
  through its trimmed form only.
\<close>

lemma split_nl_nonempty: "split_nl s \<noteq> []"
  by (induction s) (auto split: list.splits)

lemma last_split_nl_no_nl: "CHR 0x0A \<notin> set (last (split_nl s))"
  by (induction s) (auto split: list.splits simp: split_nl_nonempty)

lemma split_nl_no_nl: "CHR 0x0A \<notin> set s \<Longrightarrow> split_nl s = [s]"
  by (induction s) auto

lemma split_nl_line:
  "CHR 0x0A \<notin> set l \<Longrightarrow> split_nl (l @ CHR 0x0A # rest) = l # split_nl rest"
  by (induction l) auto

lemma split_nl_unlines:
  "\<forall>l \<in> set ls. CHR 0x0A \<notin> set l \<Longrightarrow> split_nl (unlines ls @ r) = ls @ split_nl r"
proof (induction ls)
  case Nil
  show ?case by (simp add: unlines_def)
next
  case (Cons l ls)
  then have "split_nl (l @ CHR 0x0A # (unlines ls @ r)) = l # ls @ split_nl r"
    by (simp add: split_nl_line del: split_nl.simps)
  then show ?case by (simp add: unlines_def del: split_nl.simps)
qed

lemma split_nl_append:
  "split_nl (a @ b) = butlast (split_nl a) @ split_nl (last (split_nl a) @ b)"
proof (induction a)
  case Nil
  show ?case by simp
next
  case (Cons c a)
  obtain l ls where sp: "split_nl a = l # ls"
    using split_nl_nonempty [of a] by (cases "split_nl a") auto
  show ?case
  proof (cases "c = CHR 0x0A")
    case True
    with Cons.IH sp show ?thesis by simp
  next
    case False
    show ?thesis
    proof (cases "ls = []")
      case True
      with Cons.IH sp have "split_nl (a @ b) = split_nl (l @ b)" by simp
      with False True sp show ?thesis by simp
    next
      case F2: False
      with Cons.IH sp have "split_nl (a @ b) = (l # butlast ls) @ split_nl (last ls @ b)"
        by simp
      with False F2 sp show ?thesis by simp
    qed
  qed
qed

lemma process_lines_append:
  "process_lines parse (xs @ ys) =
     (if snd (process_lines parse xs) then (fst (process_lines parse xs), True)
      else (fst (process_lines parse xs) @ fst (process_lines parse ys),
            snd (process_lines parse ys)))"
  by (induction xs) (auto split: line_result.splits prod.splits)

lemma read_loop_lines:
  "CHR 0x0A \<notin> set buffer \<Longrightarrow>
   read_loop parse buffer chunks =
     fst (process_lines parse (butlast (split_nl (buffer @ concat chunks))))"
proof (induction chunks arbitrary: buffer)
  case Nil
  then show ?case by (simp add: split_nl_no_nl del: split_nl.simps)
next
  case (Cons chunk chunks)
  let ?lines = "split_nl (buffer @ chunk)"
  have ih: "read_loop parse (last ?lines) chunks =
      fst (process_lines parse (butlast (split_nl (last ?lines @ concat chunks))))"
    by (rule Cons.IH) (rule last_split_nl_no_nl)
  have "split_nl (buffer @ concat (chunk # chunks)) =
      butlast ?lines @ split_nl (last ?lines @ concat chunks)"
    using split_nl_append [of "buffer @ chunk" "concat chunks"] by simp
  then have "butlast (split_nl (buffer @ concat (chunk # chunks))) =
      butlast ?lines @ butlast (split_nl (last ?lines @ concat chunks))"
    by (simp add: butlast_append split_nl_nonempty del: split_nl.simps)
  then show ?case
    by (simp add: ih process_lines_append Let_def split: prod.splits del: split_nl.simps)
qed

lemma handle_line_trimmed: "handle_line parse line = handle_trimmed parse (trim line)"
  by (simp add: handle_line_def handle_trimmed_def)

lemma handle_trimmed_Nil: "handle_trimmed parse [] = Skip"
  by (simp add: handle_trimmed_def)

lemma process_lines_trimmed:
  "process_lines parse ls = process_trimmed parse (filter (\<lambda>t. t \<noteq> []) (map trim ls))"
  by (induction ls)
    (auto simp: handle_line_trimmed handle_trimmed_Nil split: line_result.splits)

lemma data_frame:
  "handle_trimmed parse (''data: '' @ p) =
     (if p = ''[DONE]'' then Done
      else (case parse p of Some parsed \<Rightarrow> Yield parsed | None \<Rightarrow> Skip))"
  by (simp add: handle_trimmed_def startsWith_def)

lemma unlines_snoc: "unlines (ls @ [l]) = unlines ls @ l @ [CHR 0x0A]"
  by (simp add: unlines_def)

lemma complete_lines_unlines:
  assumes "\<forall>l \<in> set ls. CHR 0x0A \<notin> set l"
  shows "butlast (split_nl (unlines ls)) = ls"
  using split_nl_unlines [OF assms, of "[]"] by simp

lemma complete_lines_unterminated:
  assumes "\<forall>l \<in> set ls. CHR 0x0A \<notin> set l" and "ls \<noteq> []"
  shows "butlast (split_nl (butlast (unlines ls))) = butlast ls"
proof -
  from assms(2) have ls: "ls = butlast ls @ [last ls]" by simp
  have "unlines ls = unlines (butlast ls) @ last ls @ [CHR 0x0A]"
    by (subst ls) (rule unlines_snoc)
  then have "butlast (unlines ls) = unlines (butlast ls) @ last ls"
    by (simp add: butlast_append)
  moreover have "\<forall>l \<in> set (butlast ls). CHR 0x0A \<notin> set l"
    using assms(1) by (meson in_set_butlastD)
  moreover have "CHR 0x0A \<notin> set (last ls)"
    using assms by simp
  ultimately show ?thesis
    by (simp add: split_nl_unlines split_nl_no_nl del: split_nl.simps)
qed

lemma stream_of_lines:
  assumes "ok (fetch (makeStreamRequest_call gen ''/chat/completions'' (openAIRequest gen request)))"
    and "body_chunks (fetch (makeStreamRequest_call gen ''/chat/completions''
           (openAIRequest gen request))) = Some chunks"
  shows "fst (generateContentStream parse fetch gen request sent) =
           convertStreamToGeminiFormat
             (fst (process_lines parse (butlast (split_nl (concat chunks)))))"
  using assms read_loop_lines [of "[]" parse chunks]
  by (simp add: generateContentStream_def makeStreamRequest_def Let_def del: split_nl.simps)

lemma lines_then_rest:
  assumes "\<forall>l \<in> set ls. CHR 0x0A \<notin> set l"
  shows "butlast (split_nl (unlines ls @ rest)) = ls @ butlast (split_nl rest)"
  using split_nl_unlines [OF assms, of rest]
  by (simp add: butlast_append split_nl_nonempty del: split_nl.simps)

lemma process_hel_lo_done:
  assumes \<open>parse ''{"choices":[{"delta":{"content":"Hel"},"index":0}]}'' = Some chunk_hel\<close>
    and \<open>parse ''{"choices":[{"delta":{"content":"lo"},"index":0}]}'' = Some chunk_lo\<close>
  shows "process_trimmed parse [frame_hel, frame_lo, frame_done] = ([chunk_hel, chunk_lo], True)"
    and "process_trimmed parse [frame_hel, frame_lo] = ([chunk_hel, chunk_lo], False)"
proof -
  have h: "handle_trimmed parse frame_hel = Yield chunk_hel"
    using assms(1) data_frame [of parse "drop 6 frame_hel"] by (simp add: frame_hel_def)
  have l: "handle_trimmed parse frame_lo = Yield chunk_lo"
    using assms(2) data_frame [of parse "drop 6 frame_lo"] by (simp add: frame_lo_def)
  have d: "handle_trimmed parse frame_done = Done"
    using data_frame [of parse "''[DONE]''"] by (simp add: frame_done_def)
  show "process_trimmed parse [frame_hel, frame_lo, frame_done] = ([chunk_hel, chunk_lo], True)"
    by (simp add: h l d)
  show "process_trimmed parse [frame_hel, frame_lo] = ([chunk_hel, chunk_lo], False)"
    by (simp add: h l)
qed

lemma convert_hel_lo:
  "convertStreamToGeminiFormat [chunk_hel, chunk_lo] =
     ([\<lparr>candidates = [\<lparr>cand_role = ''model'', cand_text = Str ''Hel'',
                         finishReason = Undefined, index = Num 0\<rparr>],
         usageMetadata = None\<rparr>,
       \<lparr>candidates = [\<lparr>cand_role = ''model'', cand_text = Str ''lo'',
                         finishReason = Undefined, index = Num 0\<rparr>],
         usageMetadata = None\<rparr>], None)"
  by (simp add: chunk_hel_def chunk_lo_def nullish_def partial_response_def opt_prop_def
      js_or_def)

subsection \<open>Two deltas and the end marker\<close>

text \<open>
  C3. Let the lines of the stream, trimmed and without the blank ones, be the frame with
  the delta \<^verbatim>\<open>Hel\<close>, the frame with the delta \<^verbatim>\<open>lo\<close> and the frame \<^verbatim>\<open>data: [DONE]\<close>, in
  this order; after them any text may follow, or else the last line feed may be
  missing. For every way of cutting this text into chunks, \<^verbatim>\<open>generateContentStream\<close>
  yields exactly two partial responses, with the texts \<^verbatim>\<open>Hel\<close> and \<^verbatim>\<open>lo\<close> (each frame's
  own delta), and ends without an error: nothing that follows the end marker is
  decoded. \<^verbatim>\<open>JSON.parse\<close> enters as the parameter \<open>parse\<close>, of which only the values on
  the two payloads are assumed.
\<close>

theorem stream_hel_lo_done:
  assumes \<open>parse ''{"choices":[{"delta":{"content":"Hel"},"index":0}]}'' = Some chunk_hel\<close>
    and \<open>parse ''{"choices":[{"delta":{"content":"lo"},"index":0}]}'' = Some chunk_lo\<close>
    and "ok (fetch (makeStreamRequest_call gen ''/chat/completions'' (openAIRequest gen request)))"
    and "body_chunks (fetch (makeStreamRequest_call gen ''/chat/completions''
           (openAIRequest gen request))) = Some chunks"
    and "\<forall>l \<in> set ls. CHR 0x0A \<notin> set l"
    and "filter (\<lambda>t. t \<noteq> []) (map trim ls) = [frame_hel, frame_lo, frame_done]"
    and "concat chunks = unlines ls @ rest \<or> concat chunks = butlast (unlines ls)"
  shows "fst (generateContentStream parse fetch gen request sent) =
           ([\<lparr>candidates = [\<lparr>cand_role = ''model'', cand_text = Str ''Hel'',
                               finishReason = Undefined, index = Num 0\<rparr>],
               usageMetadata = None\<rparr>,
             \<lparr>candidates = [\<lparr>cand_role = ''model'', cand_text = Str ''lo'',
                               finishReason = Undefined, index = Num 0\<rparr>],
               usageMetadata = None\<rparr>], None)"
proof -
  note p = process_hel_lo_done [OF assms(1,2)]
  from assms(6) have ne: "ls \<noteq> []" by auto
  have whole: "process_lines parse ls = ([chunk_hel, chunk_lo], True)"
    by (simp only: process_lines_trimmed assms(6) p)
  have part: "fst (process_lines parse (butlast ls)) = [chunk_hel, chunk_lo]"
  proof -
    have "filter (\<lambda>t. t \<noteq> []) (map trim (butlast ls @ [last ls]))
        = [frame_hel, frame_lo, frame_done]"
      using ne assms(6) by simp
    then have "filter (\<lambda>t. t \<noteq> []) (map trim (butlast ls)) = [frame_hel, frame_lo, frame_done]
        \<or> filter (\<lambda>t. t \<noteq> []) (map trim (butlast ls)) = [frame_hel, frame_lo]"
      by (cases "trim (last ls) = []") auto
    then show ?thesis
      unfolding process_lines_trimmed by (elim disjE) (simp_all only: p fst_conv)
  qed
  have "fst (process_lines parse (butlast (split_nl (concat chunks)))) = [chunk_hel, chunk_lo]"
    using assms(7)
  proof
    assume "concat chunks = unlines ls @ rest"
    then show ?thesis
      by (simp add: lines_then_rest [OF assms(5)] process_lines_append whole
          del: split_nl.simps)
  next
    assume "concat chunks = butlast (unlines ls)"
    then show ?thesis
      by (simp add: complete_lines_unterminated [OF assms(5) ne] part del: split_nl.simps)
  qed
  then show ?thesis
    by (simp only: stream_of_lines [of fetch gen request chunks, OF assms(3,4)] convert_hel_lo)
qed

theorem stream_hel_lo_done_witness:
  \<open>json_read ''{"choices":[{"delta":{"content":"Hel"},"index":0}]}'' = Some chunk_hel
   \<and> json_read ''{"choices":[{"delta":{"content":"lo"},"index":0}]}'' = Some chunk_lo
   \<and> filter (\<lambda>t. t \<noteq> []) (map trim ex_lines) = [frame_hel, frame_lo, frame_done]
   \<and> concat ex_chunks = unlines ex_lines @ ex_rest
   \<and> fst (generateContentStream json_read (ex_fetch ex_chunks) ex_generator ex_request []) =
         ([\<lparr>candidates = [\<lparr>cand_role = ''model'', cand_text = Str ''Hel'',
                             finishReason = Undefined, index = Num 0\<rparr>],
             usageMetadata = None\<rparr>,
           \<lparr>candidates = [\<lparr>cand_role = ''model'', cand_text = Str ''lo'',
                             finishReason = Undefined, index = Num 0\<rparr>],
             usageMetadata = None\<rparr>], None)\<close>
proof -
  have p1: \<open>json_read ''{"choices":[{"delta":{"content":"Hel"},"index":0}]}'' = Some chunk_hel\<close>
    by code_simp
  have p2: \<open>json_read ''{"choices":[{"delta":{"content":"lo"},"index":0}]}'' = Some chunk_lo\<close>
    by code_simp
  have f: "ok (ex_fetch ex_chunks r)" "body_chunks (ex_fetch ex_chunks r) = Some ex_chunks" for r
    by (simp_all add: ex_fetch_def)
  have nn: "\<forall>l \<in> set ex_lines. CHR 0x0A \<notin> set l"
    by (simp add: ex_lines_def frame_hel_def frame_lo_def frame_done_def)
  have ls: "filter (\<lambda>t. t \<noteq> []) (map trim ex_lines) = [frame_hel, frame_lo, frame_done]"
    by code_simp
  have c: "concat ex_chunks = unlines ex_lines @ ex_rest"
    by code_simp
  from stream_hel_lo_done [of json_read "ex_fetch ex_chunks" ex_generator ex_request ex_chunks
      ex_lines ex_rest "[]", OF p1 p2 f nn ls disjI1 [OF c]]
    p1 p2 ls c
  show ?thesis by (simp only: simp_thms)
qed

subsection \<open>A malformed frame\<close>

lemma malformed_line_skipped:
  assumes "trim bad = ''data: '' @ pb" and "pb \<noteq> ''[DONE]''" and "parse pb = None"
  shows "handle_line parse bad = Skip"
  unfolding handle_line_trimmed assms(1) data_frame using assms(2,3) by simp

lemma process_lines_skip:
  assumes "handle_line parse bad = Skip"
  shows "process_lines parse (pre @ bad # post) = process_lines parse (pre @ post)"
  using assms by (induction pre) (auto split: line_result.splits)

lemma convert_two_then:
  assumes "truthy (elem0 (get_prop c1 ''choices''))" and "truthy (elem0 (get_prop c2 ''choices''))"
  shows "convertStreamToGeminiFormat (c1 # c2 # others) =
           (partial_response (elem0 (get_prop c1 ''choices''))
              # partial_response (elem0 (get_prop c2 ''choices''))
              # fst (convertStreamToGeminiFormat others),
            snd (convertStreamToGeminiFormat others))"
proof -
  have n: "\<not> nullish c \<and> \<not> nullish (get_prop c ''choices'')"
    if "truthy (elem0 (get_prop c ''choices''))" for c
    using that by (cases c; cases "get_prop c ''choices''") (auto simp: nullish_def)
  from n [OF assms(1)] n [OF assms(2)] assms show ?thesis
    by (simp add: Let_def split: prod.splits)
qed

text \<open>
  C5. Let \<open>bad\<close> be a line that trims to a data frame whose payload does not parse and is
  not the end marker. Then the loop skips it; a stream with this line anywhere among
  its lines is decoded to the same chunks as the stream without it, for every way of
  cutting either into chunks; and when the lines of the stream, trimmed and without
  the blank ones, are a data frame whose payload parses to a chunk with a first
  choice, the malformed frame, and another such data frame, then
  \<^verbatim>\<open>generateContentStream\<close> yields the partial responses of the two valid frames first
  and in this order, and yields exactly these two, without an error, when no further
  line follows.
\<close>

theorem malformed_frame_skipped:
  assumes "trim bad = ''data: '' @ pb" and "pb \<noteq> ''[DONE]''" and "parse pb = None"
  shows "handle_line parse bad = Skip
     \<and> ((\<forall>l \<in> set (pre @ bad # post). CHR 0x0A \<notin> set l)
          \<and> concat chunks1 = unlines (pre @ bad # post) @ rest1
          \<and> concat chunks2 = unlines (pre @ post) @ rest1
        \<longrightarrow> read_loop parse [] chunks1 = read_loop parse [] chunks2)
     \<and> (p1 \<noteq> ''[DONE]'' \<and> parse p1 = Some c1 \<and> truthy (elem0 (get_prop c1 ''choices''))
          \<and> p2 \<noteq> ''[DONE]'' \<and> parse p2 = Some c2 \<and> truthy (elem0 (get_prop c2 ''choices''))
          \<and> (\<forall>l \<in> set ls. CHR 0x0A \<notin> set l)
          \<and> filter (\<lambda>t. t \<noteq> []) (map trim ls) = [''data: '' @ p1, ''data: '' @ pb, ''data: '' @ p2]
          \<and> concat chunks = unlines ls @ rest
          \<and> ok (fetch (makeStreamRequest_call gen ''/chat/completions'' (openAIRequest gen request)))
          \<and> body_chunks (fetch (makeStreamRequest_call gen ''/chat/completions''
                (openAIRequest gen request))) = Some chunks
        \<longrightarrow> (\<exists>rs e. fst (generateContentStream parse fetch gen request sent) =
                 (partial_response (elem0 (get_prop c1 ''choices''))
                    # partial_response (elem0 (get_prop c2 ''choices'')) # rs, e))
            \<and> (CHR 0x0A \<notin> set rest \<longrightarrow>
                 fst (generateContentStream parse fetch gen request sent) =
                   ([partial_response (elem0 (get_prop c1 ''choices'')),
                     partial_response (elem0 (get_prop c2 ''choices''))], None)))"
proof (intro conjI impI; (elim conjE)?)
  show skip: "handle_line parse bad = Skip"
    using assms by (rule malformed_line_skipped)
  {
    assume nn: "\<forall>l \<in> set (pre @ bad # post). CHR 0x0A \<notin> set l"
      and c1: "concat chunks1 = unlines (pre @ bad # post) @ rest1"
      and c2: "concat chunks2 = unlines (pre @ post) @ rest1"
    from nn have nn2: "\<forall>l \<in> set (pre @ post). CHR 0x0A \<notin> set l" by auto
    have "process_lines parse ((pre @ bad # post) @ butlast (split_nl rest1))
        = process_lines parse ((pre @ post) @ butlast (split_nl rest1))"
      using process_lines_skip [OF skip, of pre "post @ butlast (split_nl rest1)"] by simp
    then show "read_loop parse [] chunks1 = read_loop parse [] chunks2"
      by (simp only: read_loop_lines [of "[]", simplified] c1 c2
          lines_then_rest [OF nn] lines_then_rest [OF nn2])
  }
  {
    assume f: "p1 \<noteq> ''[DONE]''" "parse p1 = Some c1" "p2 \<noteq> ''[DONE]''" "parse p2 = Some c2"
      and w: "truthy (elem0 (get_prop c1 ''choices''))" "truthy (elem0 (get_prop c2 ''choices''))"
      and nn: "\<forall>l \<in> set ls. CHR 0x0A \<notin> set l"
      and ls: "filter (\<lambda>t. t \<noteq> []) (map trim ls) = [''data: '' @ p1, ''data: '' @ pb, ''data: '' @ p2]"
      and c: "concat chunks = unlines ls @ rest"
      and ok: "ok (fetch (makeStreamRequest_call gen ''/chat/completions'' (openAIRequest gen request)))"
        "body_chunks (fetch (makeStreamRequest_call gen ''/chat/completions''
                (openAIRequest gen request))) = Some chunks"
    have "process_lines parse ls = ([c1, c2], False)"
      unfolding process_lines_trimmed ls process_trimmed.simps data_frame
      using f assms(2,3) by simp
    then have lines: "fst (process_lines parse (butlast (split_nl (concat chunks)))) =
        c1 # c2 # fst (process_lines parse (butlast (split_nl rest)))"
      by (simp add: c lines_then_rest [OF nn] process_lines_append del: split_nl.simps)
    have out: "fst (generateContentStream parse fetch gen request sent) =
        convertStreamToGeminiFormat (c1 # c2 # fst (process_lines parse (butlast (split_nl rest))))"
      by (simp only: stream_of_lines [of fetch gen request chunks, OF ok] lines)
    show "\<exists>rs e. fst (generateContentStream parse fetch gen request sent) =
                 (partial_response (elem0 (get_prop c1 ''choices''))
                    # partial_response (elem0 (get_prop c2 ''choices'')) # rs, e)"
      unfolding out convert_two_then [OF w] by blast
    {
      assume "CHR 0x0A \<notin> set rest"
      then have "butlast (split_nl rest) = []" by (simp add: split_nl_no_nl del: split_nl.simps)
      then show "fst (generateContentStream parse fetch gen request sent) =
                   ([partial_response (elem0 (get_prop c1 ''choices'')),
                     partial_response (elem0 (get_prop c2 ''choices''))], None)"
        unfolding out convert_two_then [OF w] by simp
    }
  }
qed

theorem malformed_frame_skipped_witness:
  "trim ex_bad_line = ''data: '' @ ''{not json''
   \<and> json_read ''{not json'' = None
   \<and> handle_line json_read ex_bad_line = Skip
   \<and> concat ex_chunks_malformed = unlines ([frame_hel] @ ex_bad_line # [frame_lo]) @ []
   \<and> concat ex_chunks_clean = unlines ([frame_hel] @ [frame_lo]) @ []
   \<and> read_loop json_read [] ex_chunks_malformed = read_loop json_read [] ex_chunks_clean
   \<and> fst (generateContentStream json_read (ex_fetch ex_chunks_malformed) ex_generator ex_request []) =
         ([\<lparr>candidates = [\<lparr>cand_role = ''model'', cand_text = Str ''Hel'',
                             finishReason = Undefined, index = Num 0\<rparr>],
             usageMetadata = None\<rparr>,
           \<lparr>candidates = [\<lparr>cand_role = ''model'', cand_text = Str ''lo'',
                             finishReason = Undefined, index = Num 0\<rparr>],
             usageMetadata = None\<rparr>], None)"
proof -
  let ?ls = "[frame_hel] @ ex_bad_line # [frame_lo]"
  have b: "trim ex_bad_line = ''data: '' @ ''{not json''" "''{not json'' \<noteq> ''[DONE]''"
    "json_read ''{not json'' = None"
    by code_simp+
  have g: "drop 6 frame_hel \<noteq> ''[DONE]''" "json_read (drop 6 frame_hel) = Some chunk_hel"
    "drop 6 frame_lo \<noteq> ''[DONE]''" "json_read (drop 6 frame_lo) = Some chunk_lo"
    by code_simp+
  have w: "truthy (elem0 (get_prop chunk_hel ''choices''))"
    "truthy (elem0 (get_prop chunk_lo ''choices''))"
    by (simp_all add: chunk_hel_def chunk_lo_def)
  have f: "ok (ex_fetch ex_chunks_malformed r)"
    "body_chunks (ex_fetch ex_chunks_malformed r) = Some ex_chunks_malformed" for r
    by (simp_all add: ex_fetch_def)
  have nn: "\<forall>l \<in> set ?ls. CHR 0x0A \<notin> set l"
    by (simp add: frame_hel_def frame_lo_def frame_not_json_def ex_bad_line_def)
  have ls: "filter (\<lambda>t. t \<noteq> []) (map trim ?ls)
      = [''data: '' @ drop 6 frame_hel, ''data: '' @ ''{not json'', ''data: '' @ drop 6 frame_lo]"
    by code_simp
  have c: "concat ex_chunks_malformed = unlines ?ls @ []"
    "concat ex_chunks_clean = unlines ([frame_hel] @ [frame_lo]) @ []"
    by code_simp+
  have r: "partial_response (elem0 (get_prop chunk_hel ''choices'')) =
             \<lparr>candidates = [\<lparr>cand_role = ''model'', cand_text = Str ''Hel'',
                               finishReason = Undefined, index = Num 0\<rparr>],
              usageMetadata = None\<rparr>"
    "partial_response (elem0 (get_prop chunk_lo ''choices'')) =
             \<lparr>candidates = [\<lparr>cand_role = ''model'', cand_text = Str ''lo'',
                               finishReason = Undefined, index = Num 0\<rparr>],
              usageMetadata = None\<rparr>"
    by (simp_all add: chunk_hel_def chunk_lo_def partial_response_def opt_prop_def nullish_def
        js_or_def)
  note t = malformed_frame_skipped [where bad = ex_bad_line and pb = "''{not json''"
      and parse = json_read and pre = "[frame_hel]" and post = "[frame_lo]"
      and ?chunks1.0 = ex_chunks_malformed and ?rest1.0 = "[]" and ?chunks2.0 = ex_chunks_clean
      and ?p1.0 = "drop 6 frame_hel" and ?c1.0 = chunk_hel
      and ?p2.0 = "drop 6 frame_lo" and ?c2.0 = chunk_lo
      and ls = ?ls and chunks = ex_chunks_malformed and rest = "[]"
      and fetch = "ex_fetch ex_chunks_malformed" and gen = ex_generator
      and request = ex_request and sent = "[]", OF b]
  have s: "handle_line json_read ex_bad_line = Skip"
    by (rule t [THEN conjunct1])
  have e: "read_loop json_read [] ex_chunks_malformed = read_loop json_read [] ex_chunks_clean"
    using t [THEN conjunct2, THEN conjunct1] nn c by blast
  have o: "fst (generateContentStream json_read (ex_fetch ex_chunks_malformed) ex_generator ex_request [])
      = ([partial_response (elem0 (get_prop chunk_hel ''choices'')),
          partial_response (elem0 (get_prop chunk_lo ''choices''))], None)"
    using t [THEN conjunct2, THEN conjunct2] g w nn ls c(1) f by simp
  from b(1,3) s c e o show ?thesis
    unfolding r by (simp only: simp_thms)
qed

text \<open>The end marker is recognised after trimming, also of white space beyond ASCII.\<close>

lemma end_marker_with_no_break_space:
  "handle_line parse (''data: [DONE]'' @ [CHR 0xC2, CHR 0xA0]) = Done"
proof -
  have "trim (''data: [DONE]'' @ [CHR 0xC2, CHR 0xA0]) = ''data: '' @ ''[DONE]''" by code_simp
  then show ?thesis
    unfolding handle_line_trimmed by (simp only: data_frame refl if_True)
qed

end
